theory Spec2Isabelle
  imports Complex_Main "HOL-Library.Sublist"
begin

section \<open>Python strings\<close>

text \<open>
  A Python \<open>str\<close> is modelled as a \<open>string\<close>; a \<open>char\<close> stands for the code point of
  the same number (U+0000 to U+00FF). The character classes below are the ones of
  CPython on that range.
\<close>

text \<open>\<open>str.isspace\<close>, which is also the class \<open>\s\<close> of \<open>re\<close> on \<open>str\<close> patterns.\<close>

definition py_isspace :: "char \<Rightarrow> bool" where
  "py_isspace c \<longleftrightarrow>
     c \<in> set [CHR 0x09, CHR 0x0A, CHR 0x0B, CHR 0x0C, CHR 0x0D, CHR 0x1C, CHR 0x1D,
               CHR 0x1E, CHR 0x1F, CHR 0x20, CHR 0x85, CHR 0xA0]"

definition ascii_digit :: "char \<Rightarrow> bool" where
  "ascii_digit c \<longleftrightarrow> c \<in> set ''0123456789''"

definition ascii_upper :: "char \<Rightarrow> bool" where
  "ascii_upper c \<longleftrightarrow> c \<in> set ''ABCDEFGHIJKLMNOPQRSTUVWXYZ''"

definition ascii_lower :: "char \<Rightarrow> bool" where
  "ascii_lower c \<longleftrightarrow> c \<in> set ''abcdefghijklmnopqrstuvwxyz''"

definition ascii_alpha :: "char \<Rightarrow> bool" where
  "ascii_alpha c \<longleftrightarrow> ascii_upper c \<or> ascii_lower c"

text \<open>The characters of U+0080 to U+00FF for which \<open>str.isalnum\<close> holds.\<close>

definition latin1_alnum :: "char \<Rightarrow> bool" where
  "latin1_alnum c \<longleftrightarrow>
     (let n = (of_char c :: nat) in
        n = 0xAA \<or> n = 0xB2 \<or> n = 0xB3 \<or> n = 0xB5 \<or> n = 0xB9 \<or> n = 0xBA \<or>
        (0xBC \<le> n \<and> n \<le> 0xBE) \<or> (0xC0 \<le> n \<and> n \<le> 0xD6) \<or>
        (0xD8 \<le> n \<and> n \<le> 0xF6) \<or> 0xF8 \<le> n)"

text \<open>The class \<open>\w\<close> of \<open>re\<close> on \<open>str\<close> patterns: alphanumeric, or the underscore.\<close>

definition re_word :: "char \<Rightarrow> bool" where
  "re_word c \<longleftrightarrow> ascii_digit c \<or> ascii_alpha c \<or> c = CHR ''_'' \<or> latin1_alnum c"

text \<open>\<open>str.lower\<close> on the ASCII letters, enough to compare against the lower-case
  literals of a pattern under \<open>re.IGNORECASE\<close> and to lower a URL scheme.\<close>

definition ascii_tolower :: "char \<Rightarrow> char" where
  "ascii_tolower c = (if ascii_upper c then char_of (of_char c + (32 :: nat)) else c)"

fun startswith :: "string \<Rightarrow> string \<Rightarrow> bool" where
  "startswith s [] = True"
| "startswith [] (p # ps) = False"
| "startswith (c # cs) (p # ps) = (c = p \<and> startswith cs ps)"

definition endswith :: "string \<Rightarrow> string \<Rightarrow> bool" where
  "endswith s p = startswith (rev s) (rev p)"

text \<open>\<open>sub in s\<close> for strings.\<close>

fun contains :: "string \<Rightarrow> string \<Rightarrow> bool" where
  "contains [] sub = (sub = [])"
| "contains (c # cs) sub = (startswith (c # cs) sub \<or> contains cs sub)"

text \<open>\<open>s.split(d)\<close> for a separator of one character: never empty.\<close>

fun split :: "char \<Rightarrow> string \<Rightarrow> string list" where
  "split d [] = [[]]"
| "split d (c # cs) =
     (if c = d then [] # split d cs
      else (case split d cs of [] \<Rightarrow> [[c]] | w # ws \<Rightarrow> (c # w) # ws))"

text \<open>\<open>s.split(d, 1)\<close> as the pair before and after the first \<open>d\<close>, if there is one.\<close>

fun split1 :: "char \<Rightarrow> string \<Rightarrow> (string \<times> string) option" where
  "split1 d [] = None"
| "split1 d (c # cs) =
     (if c = d then Some ([], cs)
      else (case split1 d cs of None \<Rightarrow> None | Some (a, b) \<Rightarrow> Some (c # a, b)))"

definition strip :: "string \<Rightarrow> string" where
  "strip s = rev (dropWhile py_isspace (rev (dropWhile py_isspace s)))"

section \<open>Regular expressions of the validator\<close>

text \<open>
  The two patterns of \<open>is_valid_youtube_url\<close> use literals, character classes, bounded
  and unbounded repetition of one class, options, sequences, alternatives and the end
  anchor. \<open>rmatch r s\<close> lists the remainders of \<open>s\<close> after every way \<open>r\<close> matches a
  prefix of it; \<open>re.match\<close> finds a match exactly when there is one.
\<close>

datatype rx =
    Lit string
  | Cls "char \<Rightarrow> bool"
  | Rep nat "char \<Rightarrow> bool"
  | Star "char \<Rightarrow> bool"
  | Plus "char \<Rightarrow> bool"
  | Opt rx
  | Seq rx rx
  | Alt rx rx
  | Eos

text \<open>A lower-case literal under \<open>re.IGNORECASE\<close>.\<close>

fun lit_rest :: "string \<Rightarrow> string \<Rightarrow> string option" where
  "lit_rest [] s = Some s"
| "lit_rest (p # ps) [] = None"
| "lit_rest (p # ps) (c # cs) = (if ascii_tolower c = p then lit_rest ps cs else None)"

fun star_rests :: "(char \<Rightarrow> bool) \<Rightarrow> string \<Rightarrow> string list" where
  "star_rests p [] = [[]]"
| "star_rests p (c # cs) = (c # cs) # (if p c then star_rests p cs else [])"

fun rmatch :: "rx \<Rightarrow> string \<Rightarrow> string list" where
  "rmatch (Lit l) s = (case lit_rest l s of None \<Rightarrow> [] | Some r \<Rightarrow> [r])"
| "rmatch (Cls p) s = (case s of [] \<Rightarrow> [] | c # cs \<Rightarrow> if p c then [cs] else [])"
| "rmatch (Rep n p) s =
     (if n \<le> length s \<and> list_all p (take n s) then [drop n s] else [])"
| "rmatch (Star p) s = star_rests p s"
| "rmatch (Plus p) s = (case s of [] \<Rightarrow> [] | c # cs \<Rightarrow> if p c then star_rests p cs else [])"
| "rmatch (Opt r) s = rmatch r s @ [s]"
| "rmatch (Seq a b) s = concat (map (rmatch b) (rmatch a s))"
| "rmatch (Alt a b) s = rmatch a s @ rmatch b s"
| "rmatch Eos s = (if s = [] \<or> s = [CHR 0x0A] then [s] else [])"

definition re_match :: "rx \<Rightarrow> string \<Rightarrow> bool" where
  "re_match r s \<longleftrightarrow> rmatch r s \<noteq> []"

text \<open>The dot (no \<open>DOTALL\<close>): anything but a newline.\<close>

definition re_dot :: "char \<Rightarrow> bool" where
  "re_dot c \<longleftrightarrow> c \<noteq> CHR 0x0A"

definition re_nonspace :: "char \<Rightarrow> bool" where
  "re_nonspace c \<longleftrightarrow> \<not> py_isspace c"

text \<open>\<open>[\?&]\<close>\<close>

definition cls_q_amp :: "char \<Rightarrow> bool" where
  "cls_q_amp c \<longleftrightarrow> c = CHR ''?'' \<or> c = CHR ''&''"

text \<open>\<open>[^#\&\?\n\s]\<close>\<close>

definition cls_id1 :: "char \<Rightarrow> bool" where
  "cls_id1 c \<longleftrightarrow> \<not> (c = CHR ''#'' \<or> c = CHR ''&'' \<or> c = CHR ''?'' \<or> c = CHR 0x0A \<or> py_isspace c)"

text \<open>\<open>[\w-]\<close>\<close>

definition cls_id2 :: "char \<Rightarrow> bool" where
  "cls_id2 c \<longleftrightarrow> re_word c \<or> c = CHR ''-''"

text \<open>
  \<^verbatim>\<open>^((?:https?:)?\/\/)?((?:www|m)\.)?(youtube\.com|youtu\.be|youtube-nocookie\.com)\<close>
  \<^verbatim>\<open>(\/.*[\?&]v=|\/v\/|\/embed\/|\/shorts\/|\/watch\?v=|\/watch\?.+&v=)([^#\&\?\n\s]{11})\<close>
\<close>

definition youtube_regex :: rx where
  "youtube_regex =
     Seq (Opt (Seq (Opt (Seq (Lit ''http'') (Seq (Opt (Lit ''s'')) (Lit '':'')))) (Lit ''//'')))
    (Seq (Opt (Seq (Alt (Lit ''www'') (Lit ''m'')) (Lit ''.'')))
    (Seq (Alt (Lit ''youtube.com'') (Alt (Lit ''youtu.be'') (Lit ''youtube-nocookie.com'')))
    (Seq (Alt (Seq (Lit ''/'') (Seq (Star re_dot) (Seq (Cls cls_q_amp) (Lit ''v=''))))
         (Alt (Lit ''/v/'')
         (Alt (Lit ''/embed/'')
         (Alt (Lit ''/shorts/'')
         (Alt (Lit ''/watch?v='')
              (Seq (Lit ''/watch?'') (Seq (Plus re_dot) (Lit ''&v=''))))))))
         (Rep 11 cls_id1))))"

text \<open>
  \<^verbatim>\<open>^(https?:\/\/)?(www\.)?(youtu\.be\/|youtube\.com\/(embed\/|v\/|watch\?v=|watch\?.+&v=))\<close>
  \<^verbatim>\<open>([\w-]{11})(\S*)$\<close>
\<close>

definition youtu_be_regex :: rx where
  "youtu_be_regex =
     Seq (Opt (Seq (Lit ''http'') (Seq (Opt (Lit ''s'')) (Lit ''://''))))
    (Seq (Opt (Lit ''www.''))
    (Seq (Alt (Lit ''youtu.be/'')
              (Seq (Lit ''youtube.com/'')
                   (Alt (Lit ''embed/'')
                   (Alt (Lit ''v/'')
                   (Alt (Lit ''watch?v='')
                        (Seq (Lit ''watch?'') (Seq (Plus re_dot) (Lit ''&v=''))))))))
    (Seq (Rep 11 cls_id2)
    (Seq (Star re_nonspace) Eos))))"

definition is_valid_youtube_url :: "string \<Rightarrow> bool" where
  "is_valid_youtube_url url =
     (if \<not> re_match youtube_regex url then re_match youtu_be_regex url else True)"

section \<open>The standard library: \<open>urllib.parse\<close> and \<open>re.search\<close>\<close>

text \<open>
  The parts of the standard library that this model does not compute are parameters:
  percent-decoding of a string that contains a percent sign (it decodes UTF-8 and can
  leave the range of \<open>char\<close>), the check of a bracketed host in a network location,
  the MD5 digest of the cache key, and \<open>repr\<close> of a string (in an error message).
\<close>

record stdlib =
  unquote_pct :: "string \<Rightarrow> string"
  bracketed_host_ok :: "string \<Rightarrow> bool"
  md5_hexdigest :: "string \<Rightarrow> string"
  repr_str :: "string \<Rightarrow> string"

text \<open>A raised exception: its class and \<open>str(e)\<close>. The texts of the interpreter's
  own exceptions are abbreviated; nothing below reads them.\<close>

datatype exn = Exn (exn_class: string) (exn_str: string)

record parse_result =
  scheme :: string
  netloc :: string
  path :: string
  params :: string
  query :: string
  fragment :: string

definition c0_or_space :: "char \<Rightarrow> bool" where
  "c0_or_space c \<longleftrightarrow> (of_char c :: nat) \<le> 0x20"

definition scheme_char :: "char \<Rightarrow> bool" where
  "scheme_char c \<longleftrightarrow> ascii_alpha c \<or> ascii_digit c \<or> c \<in> set ''+-.''"

definition uses_params :: "string list" where
  "uses_params = [[], ''ftp'', ''hdl'', ''prospero'', ''http'', ''imap'', ''https'', ''shttp'',
     ''rtsp'', ''rtsps'', ''rtspu'', ''sip'', ''sips'', ''mms'', ''sftp'', ''tel'']"

text \<open>The scheme is split off when the text before the first colon is one.\<close>

definition split_scheme :: "string \<Rightarrow> string \<times> string" where
  "split_scheme url =
     (case split1 CHR '':'' url of
        None \<Rightarrow> ([], url)
      | Some (a, b) \<Rightarrow>
          if a \<noteq> [] \<and> ascii_alpha (hd a) \<and> list_all scheme_char a
          then (map ascii_tolower a, b) else ([], url))"

definition netloc_delim :: "char \<Rightarrow> bool" where
  "netloc_delim c \<longleftrightarrow> c = CHR ''/'' \<or> c = CHR ''?'' \<or> c = CHR ''#''"

text \<open>\<open>_splitparams\<close>: the path ends at the first semicolon of its last segment.\<close>

definition splitparams :: "string \<Rightarrow> string \<times> string" where
  "splitparams url =
     (let seg = rev (takeWhile (\<lambda>c. c \<noteq> CHR ''/'') (rev url));
          pre = take (length url - length seg) url
      in case split1 CHR '';'' seg of
           None \<Rightarrow> (url, [])
         | Some (a, b) \<Rightarrow> (pre @ a, b))"

text \<open>
  \<open>urlparse\<close> (CPython 3.12): leading control characters and spaces are stripped, tab,
  carriage return and newline are removed, then scheme, network location, fragment,
  query and parameters are split off in this order. It raises \<open>ValueError\<close> on a
  network location with unbalanced brackets or a bad bracketed host.
\<close>

definition urlparse :: "stdlib \<Rightarrow> string \<Rightarrow> exn + parse_result" where
  "urlparse sl url0 =
     (let url1 = dropWhile c0_or_space url0;
          url2 = filter (\<lambda>c. c \<noteq> CHR 0x09 \<and> c \<noteq> CHR 0x0D \<and> c \<noteq> CHR 0x0A) url1;
          (sch, url3) = split_scheme url2;
          (nl, url4) =
            (if take 2 url3 = ''//''
             then (takeWhile (\<lambda>c. \<not> netloc_delim c) (drop 2 url3),
                   dropWhile (\<lambda>c. \<not> netloc_delim c) (drop 2 url3))
             else ([], url3));
          lb = CHR ''['' \<in> set nl; rb = CHR '']'' \<in> set nl
      in if (lb \<and> \<not> rb) \<or> (rb \<and> \<not> lb) then Inl (Exn ''ValueError'' ''Invalid IPv6 URL'')
         else if lb \<and> rb \<and>
                 \<not> bracketed_host_ok sl
                     (takeWhile (\<lambda>c. c \<noteq> CHR '']'')
                        (drop 1 (dropWhile (\<lambda>c. c \<noteq> CHR ''['') nl)))
         then Inl (Exn ''ValueError'' ''Invalid IPv6 URL'')
         else
           let (url5, frag) =
                 (case split1 CHR ''#'' url4 of None \<Rightarrow> (url4, []) | Some ab \<Rightarrow> ab);
               (url6, qry) =
                 (case split1 CHR ''?'' url5 of None \<Rightarrow> (url5, []) | Some ab \<Rightarrow> ab);
               (url7, par) =
                 (if sch \<in> set uses_params \<and> CHR '';'' \<in> set url6
                  then splitparams url6 else (url6, []))
           in Inr \<lparr> scheme = sch, netloc = nl, path = url7, params = par,
                    query = qry, fragment = frag \<rparr>)"

text \<open>\<open>unquote\<close> after \<open>replace('+', ' ')\<close>, as \<open>parse_qsl\<close> applies them.\<close>

definition unquote_plus :: "stdlib \<Rightarrow> string \<Rightarrow> string" where
  "unquote_plus sl s =
     (let t = map (\<lambda>c. if c = CHR ''+'' then CHR '' '' else c) s
      in if CHR ''%'' \<in> set t then unquote_pct sl t else t)"

text \<open>
  \<open>parse_qsl\<close> with its defaults: fields are separated by \<open>&\<close>; a field with no \<open>=\<close>
  or with a blank value is dropped.
\<close>

definition parse_qsl :: "stdlib \<Rightarrow> string \<Rightarrow> (string \<times> string) list" where
  "parse_qsl sl qs =
     (if qs = [] then []
      else concat (map (\<lambda>name_value.
             case split1 CHR ''='' name_value of
               None \<Rightarrow> []
             | Some (n, v) \<Rightarrow> if v \<noteq> [] then [(unquote_plus sl n, unquote_plus sl v)] else [])
           (split CHR ''&'' qs)))"

text \<open>\<open>parse_qs(q)\<close> as a map from a name to its values, in order.\<close>

definition parse_qs :: "stdlib \<Rightarrow> string \<Rightarrow> string \<Rightarrow> string list option" where
  "parse_qs sl qs name =
     (case map snd (filter (\<lambda>nv. fst nv = name) (parse_qsl sl qs)) of
        [] \<Rightarrow> None
      | vs \<Rightarrow> Some vs)"

text \<open>\<open>[0-9A-Za-z_-]\<close>\<close>

definition id_char :: "char \<Rightarrow> bool" where
  "id_char c \<longleftrightarrow> ascii_digit c \<or> ascii_alpha c \<or> c = CHR ''_'' \<or> c = CHR ''-''"

text \<open>\<open>re.search(r'[0-9A-Za-z_-]{11}', s)\<close>: the leftmost run of eleven such characters.\<close>

fun search_id :: "string \<Rightarrow> string option" where
  "search_id [] = None"
| "search_id (c # cs) =
     (if 11 \<le> length (c # cs) \<and> list_all id_char (take 11 (c # cs))
      then Some (take 11 (c # cs)) else search_id cs)"

section \<open>Identifier extraction\<close>

text \<open>
  \<open>extract_video_id\<close>: \<open>None\<close> is Python's \<open>None\<close>, returned also when an exception
  is caught. \<open>split\<close> never returns an empty list, so \<open>[-1]\<close> and \<open>[0]\<close> cannot fail
  on its result.
\<close>

definition extract_video_id :: "stdlib \<Rightarrow> string \<Rightarrow> string option" where
  "extract_video_id sl url =
     (if contains url ''youtu.be''
      then Some (hd (split CHR ''?'' (last (split CHR ''/'' url))))
      else
        case urlparse sl url of
          Inl e \<Rightarrow> None
        | Inr parsed \<Rightarrow>
            let in_yt = contains (netloc parsed) ''youtube.com'';
                v = parse_qs sl (query parsed) ''v''
            in if in_yt \<and> v \<noteq> None
               then (case v of Some (x # xs) \<Rightarrow> Some x | _ \<Rightarrow> None)
               else if in_yt \<and> contains (path parsed) ''embed''
               then Some (last (split CHR ''/'' (path parsed)))
               else
                 let path_segments = filter (\<lambda>s. s \<noteq> []) (split CHR ''/'' (path parsed))
                 in if path_segments \<noteq> [] \<and> length (last path_segments) = 11
                    then Some (last path_segments)
                    else search_id url)"

section \<open>Numbers as text, and rounding\<close>

definition digit_char :: "nat \<Rightarrow> char" where
  "digit_char d = char_of (48 + d)"

fun show_nat :: "nat \<Rightarrow> string" where
  "show_nat n = (if n < 10 then [digit_char n] else show_nat (n div 10) @ [digit_char (n mod 10)])"

declare show_nat.simps [simp del]

text \<open>\<open>str(n)\<close> of a Python integer.\<close>

definition show_int :: "int \<Rightarrow> string" where
  "show_int i = (if i < 0 then CHR ''-'' # show_nat (nat (- i)) else show_nat (nat i))"

text \<open>\<open>int(x)\<close> of a number: truncation towards zero.\<close>

definition py_trunc :: "real \<Rightarrow> int" where
  "py_trunc x = (if 0 \<le> x then \<lfloor>x\<rfloor> else \<lceil>x\<rceil>)"

definition round_half_even :: "real \<Rightarrow> int" where
  "round_half_even y =
     (let f = \<lfloor>y\<rfloor>; d = y - of_int f
      in if d < 1 / 2 then f else if 1 / 2 < d then f + 1 else if even f then f else f + 1)"

text \<open>
  \<open>round(filesize / (1024 * 1024), 1)\<close>, in exact arithmetic: the binary
  representation of the quotient and of the result is not modelled.
\<close>

definition filesize_mb_of :: "real \<Rightarrow> real" where
  "filesize_mb_of filesize = of_int (round_half_even (filesize / (1024 * 1024) * 10)) / 10"

section \<open>Format descriptors\<close>

text \<open>The dictionary that both resolvers append to \<open>formats\<close>, key by key.\<close>

record format_descriptor =
  ftype :: string
  quality :: string
  mime_type :: string
  itag :: string
  filesize_mb :: "real option"
  format_id :: "string option"
  ext :: string

definition quality_priorities :: "string list" where
  "quality_priorities = [''1080p'', ''720p'', ''480p'', ''360p'', ''240p'']"

text \<open>\<open>xs.index(x)\<close> for an \<open>x\<close> that occurs in \<open>xs\<close>.\<close>

fun index_of :: "'a list \<Rightarrow> 'a \<Rightarrow> nat" where
  "index_of [] x = 0"
| "index_of (y # ys) x = (if y = x then 0 else Suc (index_of ys x))"

text \<open>The sort key:
  \<^verbatim>\<open>quality_priorities.index(x['quality']) if x['quality'] in quality_priorities else 99\<close>\<close>

definition sort_priority :: "format_descriptor \<Rightarrow> nat" where
  "sort_priority x =
     (if quality x \<in> set quality_priorities then index_of quality_priorities (quality x)
      else 99)"

section \<open>The resolver of \<open>app.py\<close> (pytubefix)\<close>

text \<open>
  A pytubefix stream, with the attributes the resolver reads. The two stream queries
  \<^verbatim>\<open>yt.streams.filter(progressive=True, file_extension='mp4').order_by('resolution').desc()\<close>
  and \<^verbatim>\<open>yt.streams.filter(only_audio=True).order_by('abr').desc()\<close> run inside the
  library; their results are the collaborator's answer.
\<close>

record stream =
  s_itag :: int
  s_mime_type :: string
  s_resolution :: "string option"
  s_abr :: "string option"
  s_filesize :: "int option"

record yt_answer =
  yt_title :: string
  yt_thumbnail_url :: string
  yt_progressive_streams :: "stream list"
  yt_audio_streams :: "stream list"

text \<open>\<^verbatim>\<open>round(filesize / (1024 * 1024), 1) if filesize and filesize > 0 else None\<close>\<close>

definition app_filesize_mb :: "int option \<Rightarrow> real option" where
  "app_filesize_mb filesize =
     (case filesize of
        None \<Rightarrow> None
      | Some n \<Rightarrow> if n \<noteq> 0 \<and> 0 < n then Some (filesize_mb_of (of_int n)) else None)"

definition app_video_descriptor :: "stream \<Rightarrow> string \<Rightarrow> format_descriptor" where
  "app_video_descriptor s q =
     \<lparr> ftype = ''video'', quality = q, mime_type = s_mime_type s,
       itag = show_int (s_itag s), filesize_mb = app_filesize_mb (s_filesize s),
       format_id = Some (show_int (s_itag s)), ext = ''mp4'' \<rparr>"

text \<open>The loop over \<open>progressive_streams\<close>, with its two variables \<open>seen_formats\<close> and
  \<open>formats\<close>.\<close>

fun app_video_loop ::
  "stream list \<Rightarrow> string set \<Rightarrow> format_descriptor list \<Rightarrow> format_descriptor list" where
  "app_video_loop [] seen_formats formats = formats"
| "app_video_loop (s # ss) seen_formats formats =
     (case s_resolution s of
        None \<Rightarrow> app_video_loop ss seen_formats formats
      | Some q \<Rightarrow>
          if q \<noteq> [] \<and> q \<notin> seen_formats \<and> q \<in> set quality_priorities
          then app_video_loop ss (insert q seen_formats) (formats @ [app_video_descriptor s q])
          else app_video_loop ss seen_formats formats)"

text \<open>The audio entry: the first stream of \<open>audio_streams\<close>, if there is one.\<close>

definition app_audio_descriptor :: "stream \<Rightarrow> format_descriptor" where
  "app_audio_descriptor a =
     (let abr = (case s_abr a of None \<Rightarrow> None | Some t \<Rightarrow> if t \<noteq> [] then Some t else None);
          q = (case abr of Some t \<Rightarrow> ''MP3 '' @ t | None \<Rightarrow> ''MP3'')
      in \<lparr> ftype = ''audio'', quality = q, mime_type = s_mime_type a,
           itag = show_int (s_itag a), filesize_mb = app_filesize_mb (s_filesize a),
           format_id = Some (show_int (s_itag a)), ext = ''mp4'' \<rparr>)"

definition app_audio :: "stream list \<Rightarrow> format_descriptor list" where
  "app_audio audio_streams =
     (case audio_streams of [] \<Rightarrow> [] | a # rest \<Rightarrow> [app_audio_descriptor a])"

text \<open>The list \<open>formats\<close> as it stands when the resolver tests \<open>if not formats\<close>.\<close>

definition app_formats :: "yt_answer \<Rightarrow> format_descriptor list" where
  "app_formats yt =
     sort_key sort_priority (app_video_loop (yt_progressive_streams yt) {} [])
     @ app_audio (yt_audio_streams yt)"

section \<open>The resolver of \<open>production.py\<close> (yt-dlp)\<close>

text \<open>An entry of \<open>info['formats']\<close>; \<open>None\<close> is what \<open>fmt.get\<close> returns for a missing
  key or a \<open>None\<close> value.\<close>

record raw_format =
  f_vcodec :: "string option"
  f_acodec :: "string option"
  f_ext :: "string option"
  f_height :: "int option"
  f_format_id :: "string option"
  f_abr :: "real option"
  f_filesize :: "real option"
  f_filesize_approx :: "real option"

text \<open>The dictionary \<open>info\<close>, with the keys the resolver reads; \<open>None\<close> for a
  title or a thumbnail is a missing key, which \<open>info.get\<close> replaces by its default,
  and a missing \<open>formats\<close> is the empty list.\<close>

record ydl_info =
  i_title :: "string option"
  i_thumbnail :: "string option"
  i_formats :: "raw_format list"

text \<open>Truth values of Python, and \<open>str\<close> of a value that may be \<open>None\<close>.\<close>

definition str_of_str :: "string option \<Rightarrow> string" where
  "str_of_str x = (case x of None \<Rightarrow> ''None'' | Some s \<Rightarrow> s)"

definition str_of_int :: "int option \<Rightarrow> string" where
  "str_of_int x = (case x of None \<Rightarrow> ''None'' | Some n \<Rightarrow> show_int n)"

definition truthy_str :: "string option \<Rightarrow> bool" where
  "truthy_str x \<longleftrightarrow> (case x of None \<Rightarrow> False | Some s \<Rightarrow> s \<noteq> [])"

definition truthy_int :: "int option \<Rightarrow> bool" where
  "truthy_int x \<longleftrightarrow> (case x of None \<Rightarrow> False | Some n \<Rightarrow> n \<noteq> 0)"

definition truthy_num :: "real option \<Rightarrow> bool" where
  "truthy_num x \<longleftrightarrow> (case x of None \<Rightarrow> False | Some r \<Rightarrow> r \<noteq> 0)"

text \<open>\<^verbatim>\<open>filesize = fmt.get('filesize') or fmt.get('filesize_approx')\<close>, then
  \<^verbatim>\<open>round(filesize / (1024 * 1024), 1) if filesize else None\<close>\<close>

definition prod_filesize_mb :: "raw_format \<Rightarrow> real option" where
  "prod_filesize_mb fmt =
     (let filesize = (if truthy_num (f_filesize fmt) then f_filesize fmt
                      else f_filesize_approx fmt)
      in if truthy_num filesize then map_option filesize_mb_of filesize else None)"

text \<open>The condition of the video loop.\<close>

definition prod_video_entry :: "raw_format \<Rightarrow> bool" where
  "prod_video_entry fmt \<longleftrightarrow>
     f_vcodec fmt \<noteq> Some ''none'' \<and> f_acodec fmt \<noteq> Some ''none'' \<and>
     f_ext fmt \<in> Some ` set [''mp4''] \<and> truthy_int (f_height fmt) \<and>
     truthy_str (f_format_id fmt)"

definition prod_video_descriptor :: "raw_format \<Rightarrow> string \<Rightarrow> format_descriptor" where
  "prod_video_descriptor fmt q =
     \<lparr> ftype = ''video'', quality = q, mime_type = ''video/mp4'',
       itag = str_of_str (f_format_id fmt), filesize_mb = prod_filesize_mb fmt,
       format_id = f_format_id fmt, ext = ''mp4'' \<rparr>"

fun prod_video_loop ::
  "raw_format list \<Rightarrow> string set \<Rightarrow> format_descriptor list \<Rightarrow> format_descriptor list" where
  "prod_video_loop [] seen_formats formats = formats"
| "prod_video_loop (fmt # fmts) seen_formats formats =
     (if prod_video_entry fmt
      then
        let q = str_of_int (f_height fmt) @ ''p''
        in if q \<notin> seen_formats \<and> q \<in> set quality_priorities
           then prod_video_loop fmts (insert q seen_formats)
                  (formats @ [prod_video_descriptor fmt q])
           else prod_video_loop fmts seen_formats formats
      else prod_video_loop fmts seen_formats formats)"

text \<open>The condition of the audio loop.\<close>

definition prod_audio_entry :: "raw_format \<Rightarrow> bool" where
  "prod_audio_entry fmt \<longleftrightarrow>
     f_vcodec fmt = Some ''none'' \<and> f_acodec fmt \<noteq> Some ''none'' \<and>
     f_ext fmt \<in> Some ` set [''mp4'', ''m4a''] \<and> truthy_str (f_format_id fmt)"

definition prod_audio_descriptor :: "raw_format \<Rightarrow> format_descriptor" where
  "prod_audio_descriptor fmt =
     (let q = (case f_abr fmt of
                 None \<Rightarrow> ''MP3''
               | Some abr \<Rightarrow>
                   if abr \<noteq> 0 then ''MP3 '' @ show_int (py_trunc abr) @ ''kbps'' else ''MP3'')
      in \<lparr> ftype = ''audio'', quality = q, mime_type = ''audio/mp4'',
           itag = str_of_str (f_format_id fmt), filesize_mb = prod_filesize_mb fmt,
           format_id = f_format_id fmt, ext = ''mp4'' \<rparr>)"

text \<open>The audio loop appends a descriptor for the first entry that passes, and breaks.\<close>

fun prod_audio_loop :: "raw_format list \<Rightarrow> format_descriptor list" where
  "prod_audio_loop [] = []"
| "prod_audio_loop (fmt # fmts) =
     (if prod_audio_entry fmt then [prod_audio_descriptor fmt] else prod_audio_loop fmts)"

definition prod_formats :: "ydl_info \<Rightarrow> format_descriptor list" where
  "prod_formats info =
     sort_key sort_priority (prod_video_loop (i_formats info) {} [])
     @ prod_audio_loop (i_formats info)"

section \<open>The cache\<close>

definition CACHE_DURATION :: real where
  "CACHE_DURATION = 3600"

definition get_cache_key :: "stdlib \<Rightarrow> string \<Rightarrow> string" where
  "get_cache_key sl url = md5_hexdigest sl url"

text \<open>
  A file of the cache directory, by what reading it gives: \<open>open\<close> fails, or
  \<open>json.load\<close> fails, or \<open>json.load\<close> returns a document. Of a document the code reads
  the keys \<open>timestamp\<close> and \<open>info\<close>, when it is a dictionary. That \<open>json.load\<close>
  returns what \<open>json.dump\<close> wrote is part of this model.
\<close>

datatype ts_value = TsNumber real | TsOther

datatype 'i json_doc = JsonDict "ts_value option" "'i option" | JsonOther

datatype 'i file_state = Unreadable | Unparsable | Holds "'i json_doc"

type_synonym 'i files = "string \<Rightarrow> 'i file_state option"

text \<open>\<open>os.path.join\<close> of two components (POSIX).\<close>

definition os_path_join :: "string \<Rightarrow> string \<Rightarrow> string" where
  "os_path_join a b =
     (if startswith b ''/'' then b
      else if a = [] \<or> endswith a ''/'' then a @ b
      else a @ ''/'' @ b)"

definition json_load_file :: "'i file_state \<Rightarrow> exn + 'i json_doc" where
  "json_load_file f =
     (case f of
        Unreadable \<Rightarrow> Inl (Exn ''PermissionError'' ''Permission denied'')
      | Unparsable \<Rightarrow> Inl (Exn ''JSONDecodeError'' ''Expecting value'')
      | Holds d \<Rightarrow> Inr d)"

text \<open>\<open>data['timestamp']\<close> and \<open>data['info']\<close>\<close>

definition data_timestamp :: "'i json_doc \<Rightarrow> exn + ts_value" where
  "data_timestamp data =
     (case data of
        JsonOther \<Rightarrow> Inl (Exn ''TypeError'' ''indices must be integers'')
      | JsonDict None i \<Rightarrow> Inl (Exn ''KeyError'' ''timestamp'')
      | JsonDict (Some t) i \<Rightarrow> Inr t)"

definition data_info :: "'i json_doc \<Rightarrow> exn + 'i" where
  "data_info data =
     (case data of
        JsonOther \<Rightarrow> Inl (Exn ''TypeError'' ''indices must be integers'')
      | JsonDict t None \<Rightarrow> Inl (Exn ''KeyError'' ''info'')
      | JsonDict t (Some i) \<Rightarrow> Inr i)"

text \<open>\<open>time.time() - data['timestamp']\<close>\<close>

definition time_minus :: "real \<Rightarrow> ts_value \<Rightarrow> exn + real" where
  "time_minus now t =
     (case t of
        TsNumber r \<Rightarrow> Inr (now - r)
      | TsOther \<Rightarrow> Inl (Exn ''TypeError'' ''unsupported operand type(s) for -''))"

text \<open>
  The body of the \<open>try\<close> of \<open>get_cached_info\<close>: \<open>Inr (Some i)\<close> when it returns
  \<open>data['info']\<close>, \<open>Inr None\<close> when it falls through, \<open>Inl e\<close> when it raises.
\<close>

definition get_cached_info_try :: "'i file_state \<Rightarrow> real \<Rightarrow> exn + 'i option" where
  "get_cached_info_try f now =
     (case json_load_file f of
        Inl e \<Rightarrow> Inl e
      | Inr data \<Rightarrow>
          (case data_timestamp data of
             Inl e \<Rightarrow> Inl e
           | Inr t \<Rightarrow>
               (case time_minus now t of
                  Inl e \<Rightarrow> Inl e
                | Inr age \<Rightarrow>
                    if age < CACHE_DURATION
                    then (case data_info data of Inl e \<Rightarrow> Inl e | Inr i \<Rightarrow> Inr (Some i))
                    else Inr None)))"

text \<open>
  \<open>get_cached_info\<close>, in the cache directory \<open>cache_dir\<close> with the files \<open>fs\<close>, at the
  time \<open>now\<close>. \<open>Inl e\<close> would be an exception that reaches the caller; \<open>Inr None\<close> is
  the return value \<open>None\<close>.
\<close>

definition get_cached_info :: "string \<Rightarrow> 'i files \<Rightarrow> real \<Rightarrow> string \<Rightarrow> exn + 'i option" where
  "get_cached_info cache_dir fs now cache_key =
     (let cache_file = os_path_join cache_dir (cache_key @ ''.json'')
      in case fs cache_file of
           None \<Rightarrow> Inr None
         | Some f \<Rightarrow>
             (case get_cached_info_try f now of
                Inl e \<Rightarrow> Inr None
              | Inr (Some i) \<Rightarrow> Inr (Some i)
              | Inr None \<Rightarrow> Inr None))"

text \<open>
  What the write of \<open>cache_info\<close> meets: it succeeds, or \<open>open\<close> raises and the file is
  untouched, or \<open>json.dump\<close> raises after \<open>open\<close> has truncated the file and leaves
  an incomplete document.
\<close>

datatype write_outcome = WriteOk | OpenFails exn | DumpFails exn

definition cache_info_try ::
  "write_outcome \<Rightarrow> 'i files \<Rightarrow> string \<Rightarrow> real \<Rightarrow> 'i \<Rightarrow> (exn + unit) \<times> 'i files" where
  "cache_info_try wo fs cache_file now info =
     (case wo of
        WriteOk \<Rightarrow>
          (Inr (), fs(cache_file \<mapsto> Holds (JsonDict (Some (TsNumber now)) (Some info))))
      | OpenFails e \<Rightarrow> (Inl e, fs)
      | DumpFails e \<Rightarrow> (Inl e, fs(cache_file \<mapsto> Unparsable)))"

text \<open>\<open>cache_info\<close>: \<open>Inl e\<close> would be an exception that reaches the caller.\<close>

definition cache_info ::
  "string \<Rightarrow> write_outcome \<Rightarrow> 'i files \<Rightarrow> real \<Rightarrow> string \<Rightarrow> 'i \<Rightarrow> exn + 'i files" where
  "cache_info cache_dir wo fs now cache_key info =
     (let cache_file = os_path_join cache_dir (cache_key @ ''.json'')
      in case cache_info_try wo fs cache_file now info of
           (Inl e, fs') \<Rightarrow> Inr fs'
         | (Inr u, fs') \<Rightarrow> Inr fs')"

section \<open>Requests, responses and the world\<close>

text \<open>A JSON value as \<open>request.get_json()\<close> returns it.\<close>

datatype json =
    JNull
  | JBool bool
  | JInt int
  | JFloat real
  | JStr string
  | JArr "json list"
  | JObj "(string \<times> json) list"

text \<open>The body of a POST: not announced as JSON, or JSON that \<open>get_json\<close> fails to
  parse (it raises), or a JSON value.\<close>

datatype request_body = NotJson | BadJson exn | Json json

fun truthy_json :: "json \<Rightarrow> bool" where
  "truthy_json JNull = False"
| "truthy_json (JBool b) = b"
| "truthy_json (JInt n) = (n \<noteq> 0)"
| "truthy_json (JFloat r) = (r \<noteq> 0)"
| "truthy_json (JStr s) = (s \<noteq> [])"
| "truthy_json (JArr xs) = (xs \<noteq> [])"
| "truthy_json (JObj kvs) = (kvs \<noteq> [])"

fun type_name :: "json \<Rightarrow> string" where
  "type_name JNull = ''NoneType''"
| "type_name (JBool b) = ''bool''"
| "type_name (JInt n) = ''int''"
| "type_name (JFloat r) = ''float''"
| "type_name (JStr s) = ''str''"
| "type_name (JArr xs) = ''list''"
| "type_name (JObj kvs) = ''dict''"

text \<open>\<open>'url' in data\<close>\<close>

fun url_in :: "json \<Rightarrow> exn + bool" where
  "url_in (JObj kvs) = Inr (''url'' \<in> fst ` set kvs)"
| "url_in (JArr xs) = Inr (JStr ''url'' \<in> set xs)"
| "url_in (JStr s) = Inr (contains s ''url'')"
| "url_in j = Inl (Exn ''TypeError'' (''argument of type '' @ type_name j @ '' is not iterable''))"

text \<open>\<open>data['url']\<close>; of a repeated key the JSON parser keeps the last value.\<close>

fun url_of :: "json \<Rightarrow> exn + json" where
  "url_of (JObj kvs) =
     (case map_of (rev kvs) ''url'' of
        None \<Rightarrow> Inl (Exn ''KeyError'' ''url'')
      | Some v \<Rightarrow> Inr v)"
| "url_of j = Inl (Exn ''TypeError'' (type_name j @ '' indices must be integers''))"

text \<open>\<open>.strip()\<close> of the value\<close>

fun strip_of :: "json \<Rightarrow> exn + string" where
  "strip_of (JStr s) = Inr (strip s)"
| "strip_of j =
     Inl (Exn ''AttributeError'' (type_name j @ '' object has no attribute strip''))"

record video_info =
  title :: string
  thumbnail :: string
  formats :: "format_descriptor list"

datatype body =
    ErrorBody string
  | InfoBody video_info
  | FileBody string string string

record response =
  status :: nat
  body :: body

definition error_response :: "nat \<Rightarrow> string \<Rightarrow> response" where
  "error_response code msg = \<lparr> status = code, body = ErrorBody msg \<rparr>"

text \<open>The answer of the outermost \<open>except\<close> of \<open>get_video_info\<close>.\<close>

definition unexpected :: "exn \<Rightarrow> response" where
  "unexpected e = error_response 500 (''An unexpected error occurred: '' @ exn_str e)"

text \<open>
  The calls a handler makes, in order: a record kept beside the state, to state which
  functions a run has invoked.
\<close>

datatype call =
    Call_is_valid_youtube_url string
  | Call_extract_video_id string
  | Call_get_cached_info string
  | Call_collaborator string
  | Call_cache_info string

text \<open>The world a handler runs in: the files of the cache directory, the temporary
  directories on disk, and the calls made so far.\<close>

record world =
  cache_files :: "video_info files"
  tmp_dirs :: "string list"
  calls :: "call list"

definition called :: "call \<Rightarrow> world \<Rightarrow> world" where
  "called c w = w\<lparr> calls := calls w @ [c] \<rparr>"

text \<open>What the environment answers during one run of \<open>get_video_info\<close>: the cache
  directory of the process, the clock at the lookup and at the store, and the fate of
  the write.\<close>

record info_env =
  CACHE_DIR :: string
  lookup_time :: real
  store_time :: real
  write_fate :: write_outcome

section \<open>The route \<open>/get_video_info\<close>\<close>

text \<open>
  The two files differ in the block that calls the collaborator and builds \<open>title\<close>,
  \<open>thumbnail\<close> and \<open>formats\<close>; \<open>resolve clean_url video_id\<close> is that block, \<open>Inl e\<close>
  when anything in it raises. The rest of the handler is the same text in both files.
  It is written here in three parts, in the order of the source.
\<close>

type_synonym resolver = "string \<Rightarrow> string \<Rightarrow> exn + string \<times> string \<times> format_descriptor list"

text \<open>
  From \<open>clean_url = ...\<close> to the end of the two inner \<open>try\<close> blocks: the cache
  lookup, the collaborator, the test for no formats, the store. An exception of the
  lookup would reach the \<open>except\<close> that answers "Error processing YouTube video", one
  of the inner block the \<open>except\<close> that answers "Error accessing YouTube".
\<close>

definition get_video_info_for_id ::
  "resolver \<Rightarrow> stdlib \<Rightarrow> info_env \<Rightarrow> world \<Rightarrow> string \<Rightarrow> response \<times> world" where
  "get_video_info_for_id resolve sl env w video_id =
     (let clean_url = ''https://www.youtube.com/watch?v='' @ video_id;
          cache_key = get_cache_key sl clean_url;
          w1 = called (Call_get_cached_info cache_key) w
      in case get_cached_info (CACHE_DIR env) (cache_files w1) (lookup_time env) cache_key of
           Inl e \<Rightarrow>
             (error_response 400 (''Error processing YouTube video: '' @ exn_str e), w1)
         | Inr (Some cached_info) \<Rightarrow> (\<lparr> status = 200, body = InfoBody cached_info \<rparr>, w1)
         | Inr None \<Rightarrow>
             let w2 = called (Call_collaborator clean_url) w1
             in (case resolve clean_url video_id of
                   Inl e \<Rightarrow>
                     (error_response 400 (''Error accessing YouTube: '' @ exn_str e), w2)
                 | Inr (t, th, fs) \<Rightarrow>
                     if fs = []
                     then (error_response 400
                             ''No downloadable formats found. The video may have restrictions.'',
                           w2)
                     else
                       let vi = \<lparr> title = t, thumbnail = th, formats = fs \<rparr>;
                           w3 = called (Call_cache_info cache_key) w2
                       in (case cache_info (CACHE_DIR env) (write_fate env) (cache_files w3)
                                  (store_time env) cache_key vi of
                             Inl e \<Rightarrow>
                               (error_response 400
                                  (''Error accessing YouTube: '' @ exn_str e), w3)
                           | Inr files' \<Rightarrow>
                               (\<lparr> status = 200, body = InfoBody vi \<rparr>,
                                w3\<lparr> cache_files := files' \<rparr>))))"

text \<open>From \<open>if not url\<close> to the test of the extracted identifier.\<close>

definition get_video_info_for_url ::
  "resolver \<Rightarrow> stdlib \<Rightarrow> info_env \<Rightarrow> world \<Rightarrow> string \<Rightarrow> response \<times> world" where
  "get_video_info_for_url resolve sl env w url =
     (if url = [] then (error_response 400 ''URL cannot be empty'', w)
      else
        let w1 = called (Call_is_valid_youtube_url url) w
        in if \<not> is_valid_youtube_url url
           then (error_response 400
                   ''Invalid YouTube URL. Please enter a valid YouTube video URL.'', w1)
           else
             let w2 = called (Call_extract_video_id url) w1
             in (case extract_video_id sl url of
                   None \<Rightarrow> (error_response 400 ''Could not extract video ID from URL'', w2)
                 | Some video_id \<Rightarrow>
                     if video_id = [] \<or> length video_id \<noteq> 11
                     then (error_response 400 ''Could not extract video ID from URL'', w2)
                     else get_video_info_for_id resolve sl env w2 video_id))"

text \<open>The start of the handler: the body of the request, up to \<open>data['url'].strip()\<close>.
  What raises here reaches the outermost \<open>except\<close>.\<close>

definition get_video_info ::
  "resolver \<Rightarrow> stdlib \<Rightarrow> info_env \<Rightarrow> world \<Rightarrow> request_body \<Rightarrow> response \<times> world" where
  "get_video_info resolve sl env w req =
     (case req of
        NotJson \<Rightarrow> (error_response 400 ''Request must be JSON'', w)
      | BadJson e \<Rightarrow> (unexpected e, w)
      | Json data \<Rightarrow>
          if \<not> truthy_json data then (error_response 400 ''URL is required'', w)
          else
            (case url_in data of
               Inl e \<Rightarrow> (unexpected e, w)
             | Inr False \<Rightarrow> (error_response 400 ''URL is required'', w)
             | Inr True \<Rightarrow>
                 (case url_of data of
                    Inl e \<Rightarrow> (unexpected e, w)
                  | Inr u \<Rightarrow>
                      (case strip_of u of
                         Inl e \<Rightarrow> (unexpected e, w)
                       | Inr url \<Rightarrow> get_video_info_for_url resolve sl env w url))))"

text \<open>The block of \<open>app.py\<close>: \<open>YouTube url\<close> is what pytubefix answers for the URL,
  \<open>Inl e\<close> when any of its calls in the block raises.\<close>

definition app_resolve :: "(string \<Rightarrow> exn + yt_answer) \<Rightarrow> resolver" where
  "app_resolve YouTube clean_url video_id =
     (case YouTube clean_url of
        Inl e \<Rightarrow> Inl e
      | Inr yt \<Rightarrow> Inr (yt_title yt, yt_thumbnail_url yt, app_formats yt))"

definition app_get_video_info ::
  "(string \<Rightarrow> exn + yt_answer) \<Rightarrow> stdlib \<Rightarrow> info_env \<Rightarrow> world \<Rightarrow> request_body \<Rightarrow>
   response \<times> world" where
  "app_get_video_info YouTube = get_video_info (app_resolve YouTube)"

text \<open>
  The block of \<open>production.py\<close>: \<open>extract_info url\<close> is what
  \<^verbatim>\<open>ydl.extract_info(clean_url, download=False)\<close> does: it raises, or returns \<open>None\<close>
  (as it does on an error under \<open>ignoreerrors\<close>), or returns the dictionary. On \<open>None\<close>
  the first \<open>info.get\<close> raises \<open>AttributeError\<close>.
\<close>

definition prod_resolve :: "(string \<Rightarrow> exn + ydl_info option) \<Rightarrow> resolver" where
  "prod_resolve extract_info clean_url video_id =
     (case extract_info clean_url of
        Inl e \<Rightarrow> Inl e
      | Inr None \<Rightarrow>
          Inl (Exn ''AttributeError'' ''NoneType object has no attribute get'')
      | Inr (Some info) \<Rightarrow>
          Inr (case i_title info of None \<Rightarrow> ''Unknown Title'' | Some t \<Rightarrow> t,
               case i_thumbnail info of
                 None \<Rightarrow> ''https://img.youtube.com/vi/'' @ video_id @ ''/maxresdefault.jpg''
               | Some t \<Rightarrow> t,
               prod_formats info))"

definition prod_get_video_info ::
  "(string \<Rightarrow> exn + ydl_info option) \<Rightarrow> stdlib \<Rightarrow> info_env \<Rightarrow> world \<Rightarrow> request_body \<Rightarrow>
   response \<times> world" where
  "prod_get_video_info extract_info = get_video_info (prod_resolve extract_info)"

section \<open>The route \<open>/download\<close>\<close>

text \<open>
  \<open>int(s)\<close> of a string: surrounding whitespace, a sign, and decimal digits that
  single underscores may separate (the limit on the number of digits is left out).
  The whitespace that \<open>int\<close> skips is not that of \<open>str.strip\<close>: of the ASCII
  characters it skips the space and U+0009 to U+000D only, so U+001C to U+001F make
  the literal invalid, and beyond ASCII it takes every space character (U+0085 and
  U+00A0 here) for a space.
\<close>

definition int_space :: "char \<Rightarrow> bool" where
  "int_space c \<longleftrightarrow>
     c \<in> set [CHR 0x09, CHR 0x0A, CHR 0x0B, CHR 0x0C, CHR 0x0D, CHR 0x20, CHR 0x85, CHR 0xA0]"

fun int_literal :: "string \<Rightarrow> bool" where
  "int_literal [] = False"
| "int_literal [c] = ascii_digit c"
| "int_literal (c # d # r) =
     (ascii_digit c \<and> (if d = CHR ''_'' then int_literal r else int_literal (d # r)))"

definition digits_value :: "string \<Rightarrow> nat" where
  "digits_value ds = foldl (\<lambda>a c. a * 10 + (of_char c - 48)) 0 ds"

definition py_int :: "stdlib \<Rightarrow> string \<Rightarrow> exn + int" where
  "py_int sl s =
     (let t = rev (dropWhile int_space (rev (dropWhile int_space s)));
          (neg, u) =
            (case t of
               [] \<Rightarrow> (False, [])
             | c # cs \<Rightarrow>
                 if c = CHR ''-'' then (True, cs)
                 else if c = CHR ''+'' then (False, cs) else (False, t))
      in if int_literal u
         then Inr ((if neg then - 1 else 1)
                   * int (digits_value (filter (\<lambda>c. c \<noteq> CHR ''_'') u)))
         else Inl (Exn ''ValueError''
                     (''invalid literal for int() with base 10: '' @ repr_str sl s)))"

definition basename :: "string \<Rightarrow> string" where
  "basename p = rev (takeWhile (\<lambda>c. c \<noteq> CHR ''/'') (rev p))"

text \<open>The MIME type, by the end of the file name.\<close>

definition mime_type_of :: "string \<Rightarrow> string" where
  "mime_type_of filename =
     (if endswith filename ''.mp4'' then ''video/mp4''
      else if endswith filename ''.webm'' then ''video/webm''
      else if endswith filename ''.mp3'' \<or> endswith filename ''.m4a'' then ''audio/mp4''
      else ''application/octet-stream'')"

text \<open>The query arguments \<open>url\<close> and \<open>itag\<close>; \<open>None\<close> for an argument that is not there.\<close>

record download_args =
  arg_url :: "string option"
  arg_itag :: "string option"

text \<open>
  What the environment answers during one run of \<open>download\<close>:
  \<^item> \<open>mkdtemp\<close>: \<open>tempfile.mkdtemp()\<close> raises, or creates a directory and returns it;
  \<^item> \<open>yt_streams url\<close> (\<open>app.py\<close>): \<open>YouTube(url, ...).streams\<close> raises, or has streams
    with these itags;
  \<^item> \<open>stream_download itag dir\<close> (\<open>app.py\<close>): \<open>stream.download(output_path=dir)\<close>
    raises, or returns a path or \<open>None\<close>;
  \<^item> \<open>ydl_download url format_id outtmpl\<close> (\<open>production.py\<close>):
    \<open>ydl.extract_info(url, download=True)\<close> raises or returns (its value is not read);
  \<^item> \<open>os_walk dir\<close> (\<open>production.py\<close>): the directories that \<open>os.walk\<close> yields, each
    with its files;
  \<^item> \<open>path_exists\<close>, \<open>read_file\<close>: \<open>os.path.exists\<close>, and \<open>open\<close> with \<open>read\<close>.
\<close>

record download_env =
  mkdtemp :: "exn + string"
  yt_streams :: "string \<Rightarrow> exn + int list"
  stream_download :: "int \<Rightarrow> string \<Rightarrow> exn + string option"
  ydl_download :: "string \<Rightarrow> string \<Rightarrow> string \<Rightarrow> exn + unit"
  os_walk :: "string \<Rightarrow> (string \<times> string list) list"
  path_exists :: "string \<Rightarrow> bool"
  read_file :: "string \<Rightarrow> exn + string"

text \<open>\<open>shutil.rmtree(temp_dir, ignore_errors=True)\<close>, taken to remove the directory.\<close>

definition rmtree :: "string \<Rightarrow> world \<Rightarrow> world" where
  "rmtree d w = w\<lparr> tmp_dirs := removeAll d (tmp_dirs w) \<rparr>"

definition download_error :: "exn \<Rightarrow> response" where
  "download_error e = error_response 500 (''Error downloading video: '' @ exn_str e)"

text \<open>
  The body of the inner \<open>try\<close> of \<open>download\<close> in \<open>app.py\<close>: \<open>Inr r\<close> when it returns the
  response \<open>r\<close>, \<open>Inl e\<close> when it raises \<open>e\<close>; with the world it leaves.
\<close>

definition app_download_try ::
  "stdlib \<Rightarrow> download_env \<Rightarrow> string \<Rightarrow> string \<Rightarrow> string \<Rightarrow> world \<Rightarrow>
   (exn + response) \<times> world" where
  "app_download_try sl env url itag_arg temp_dir w =
     (let w1 = called (Call_collaborator url) w
      in case yt_streams env url of
           Inl e \<Rightarrow> (Inl e, w1)
         | Inr itags \<Rightarrow>
             (case py_int sl itag_arg of
                Inl e \<Rightarrow> (Inl e, w1)
              | Inr n \<Rightarrow>
                  if n \<notin> set itags
                  then (Inr (error_response 400 ''Invalid format ID or stream not found''), w1)
                  else
                    (case stream_download env n temp_dir of
                       Inl e \<Rightarrow> (Inl e, w1)
                     | Inr None \<Rightarrow>
                         (Inr (error_response 500 ''Download failed or file not found''), w1)
                     | Inr (Some output_path) \<Rightarrow>
                         if output_path = [] \<or> \<not> path_exists env output_path
                         then (Inr (error_response 500 ''Download failed or file not found''),
                               w1)
                         else
                           let filename = basename output_path
                           in (case read_file env output_path of
                                 Inl e \<Rightarrow> (Inl e, w1)
                               | Inr file_data \<Rightarrow>
                                   (Inr \<lparr> status = 200,
                                          body = FileBody file_data filename
                                                   (mime_type_of filename) \<rparr>,
                                    rmtree temp_dir w1)))))"

text \<open>
  The handler around that body, the same text in both files: it checks the arguments,
  creates the temporary directory, runs the body \<open>try_body\<close>; when the body raises, the
  inner \<open>except\<close> removes the directory and raises again, and the next \<open>except\<close>
  answers 500. Nothing outside these two \<open>try\<close> blocks raises, so the outermost
  \<open>except\<close> of the route has no branch here.
\<close>

definition download ::
  "(string \<Rightarrow> string \<Rightarrow> string \<Rightarrow> world \<Rightarrow> (exn + response) \<times> world) \<Rightarrow>
   download_env \<Rightarrow> world \<Rightarrow> download_args \<Rightarrow> response \<times> world" where
  "download try_body env w args =
     (case (arg_url args, arg_itag args) of
        (Some url, Some itag_arg) \<Rightarrow>
          if url = [] \<or> itag_arg = []
          then (error_response 400 ''Missing URL or format ID parameter'', w)
          else
            let w1 = called (Call_is_valid_youtube_url url) w
            in if \<not> is_valid_youtube_url url
               then (error_response 400 ''Invalid YouTube URL'', w1)
               else
                 (case mkdtemp env of
                    Inl e \<Rightarrow> (download_error e, w1)
                  | Inr temp_dir \<Rightarrow>
                      let w2 = w1\<lparr> tmp_dirs := temp_dir # tmp_dirs w1 \<rparr>
                      in (case try_body url itag_arg temp_dir w2 of
                            (Inl e, w3) \<Rightarrow> (download_error e, rmtree temp_dir w3)
                          | (Inr r, w3) \<Rightarrow> (r, w3)))
      | _ \<Rightarrow> (error_response 400 ''Missing URL or format ID parameter'', w))"

definition app_download ::
  "stdlib \<Rightarrow> download_env \<Rightarrow> world \<Rightarrow> download_args \<Rightarrow> response \<times> world" where
  "app_download sl env = download (app_download_try sl env) env"

text \<open>
  The search for the downloaded file in \<open>production.py\<close>: in each directory the first
  file that does not end in \<open>.part\<close> is taken, and the walk stops once
  \<open>downloaded_file\<close> is set.
\<close>

fun find_downloaded ::
  "(string \<times> string list) list \<Rightarrow> string option \<Rightarrow> string option" where
  "find_downloaded [] downloaded_file = downloaded_file"
| "find_downloaded ((dirpath, files) # rest) downloaded_file =
     (let downloaded_file' =
            (case filter (\<lambda>file. \<not> endswith file ''.part'') files of
               [] \<Rightarrow> downloaded_file
             | file # others \<Rightarrow> Some (os_path_join dirpath file))
      in if truthy_str downloaded_file' then downloaded_file'
         else find_downloaded rest downloaded_file')"

text \<open>The body of the inner \<open>try\<close> of \<open>download\<close> in \<open>production.py\<close>.\<close>

definition prod_download_try ::
  "download_env \<Rightarrow> string \<Rightarrow> string \<Rightarrow> string \<Rightarrow> world \<Rightarrow> (exn + response) \<times> world" where
  "prod_download_try env url format_id_arg temp_dir w =
     (let w1 = called (Call_collaborator url) w
      in case ydl_download env url format_id_arg (os_path_join temp_dir ''%(title)s.%(ext)s'') of
           Inl e \<Rightarrow> (Inl e, w1)
         | Inr u \<Rightarrow>
             (case find_downloaded (os_walk env temp_dir) None of
                None \<Rightarrow> (Inr (error_response 500 ''Download failed or file not found''), w1)
              | Some downloaded_file \<Rightarrow>
                  if downloaded_file = [] \<or> \<not> path_exists env downloaded_file
                  then (Inr (error_response 500 ''Download failed or file not found''), w1)
                  else
                    let filename = basename downloaded_file
                    in (case read_file env downloaded_file of
                          Inl e \<Rightarrow> (Inl e, w1)
                        | Inr file_data \<Rightarrow>
                            (Inr \<lparr> status = 200,
                                   body = FileBody file_data filename (mime_type_of filename) \<rparr>,
                             rmtree temp_dir w1))))"

definition prod_download ::
  "download_env \<Rightarrow> world \<Rightarrow> download_args \<Rightarrow> response \<times> world" where
  "prod_download env = download (prod_download_try env) env"

section \<open>Notions of the specification\<close>

text \<open>Deduplication by a label, keeping the first occurrence of every label.\<close>

fun keep_first :: "('a \<Rightarrow> string) \<Rightarrow> 'a list \<Rightarrow> 'a list" where
  "keep_first lab [] = []"
| "keep_first lab (x # xs) = x # keep_first lab (filter (\<lambda>y. lab y \<noteq> lab x) xs)"

definition video_descriptors :: "format_descriptor list \<Rightarrow> format_descriptor list" where
  "video_descriptors fs = filter (\<lambda>d. ftype d = ''video'') fs"

definition audio_descriptors :: "format_descriptor list \<Rightarrow> format_descriptor list" where
  "audio_descriptors fs = filter (\<lambda>d. ftype d = ''audio'') fs"

text \<open>The order of the labels, best first; any other label ranks after them.\<close>

definition label_rank :: "string \<Rightarrow> nat" where
  "label_rank q =
     (if q = ''1080p'' then 0 else if q = ''720p'' then 1 else if q = ''480p'' then 2
      else if q = ''360p'' then 3 else if q = ''240p'' then 4 else 99)"

text \<open>The resolution label of a raw entry of yt-dlp, \<^verbatim>\<open>f"{fmt.get('height')}p"\<close>, and of
  a pytubefix stream (no label when \<open>resolution\<close> is \<open>None\<close> or empty).\<close>

definition resolution_label :: "raw_format \<Rightarrow> string" where
  "resolution_label fmt = str_of_int (f_height fmt) @ ''p''"

definition stream_label :: "stream \<Rightarrow> string" where
  "stream_label s = (case s_resolution s of None \<Rightarrow> [] | Some q \<Rightarrow> q)"

text \<open>A progressive entry: it has a video and an audio track.\<close>

definition progressive :: "raw_format \<Rightarrow> bool" where
  "progressive fmt \<longleftrightarrow> f_vcodec fmt \<noteq> Some ''none'' \<and> f_acodec fmt \<noteq> Some ''none''"

text \<open>The entries the claim on video descriptors names: progressive, of the container
  \<open>mp4\<close>, with a label of the allow-list.\<close>

definition listed_video_entry :: "raw_format \<Rightarrow> bool" where
  "listed_video_entry fmt \<longleftrightarrow>
     progressive fmt \<and> f_ext fmt = Some ''mp4'' \<and>
     resolution_label fmt \<in> set quality_priorities"

text \<open>The same entries, when they also carry a format identifier that is not empty.\<close>

definition identified_video_entry :: "raw_format \<Rightarrow> bool" where
  "identified_video_entry fmt \<longleftrightarrow> listed_video_entry fmt \<and> truthy_str (f_format_id fmt)"

text \<open>The audio-only entries of a compatible container, and the bitrate of one
  (\<^verbatim>\<open>fmt.get('abr', 0)\<close>, a missing one counting as 0).\<close>

definition audio_only_entry :: "raw_format \<Rightarrow> bool" where
  "audio_only_entry fmt \<longleftrightarrow>
     f_vcodec fmt = Some ''none'' \<and> f_acodec fmt \<noteq> Some ''none'' \<and>
     (f_ext fmt = Some ''mp4'' \<or> f_ext fmt = Some ''m4a'')"

definition bitrate :: "raw_format \<Rightarrow> real" where
  "bitrate fmt = (case f_abr fmt of None \<Rightarrow> 0 | Some r \<Rightarrow> r)"

text \<open>
  A request to \<open>/get_video_info\<close> reaches the collaborator: its body is a JSON object
  whose \<open>url\<close> is a string that, stripped, is not empty, passes the validation and
  yields the identifier \<open>video_id\<close> of eleven characters, and the cache holds no fresh
  record for it.
\<close>

definition reaches_collaborator ::
  "stdlib \<Rightarrow> info_env \<Rightarrow> world \<Rightarrow> (string \<times> json) list \<Rightarrow> string \<Rightarrow> bool" where
  "reaches_collaborator sl env w kvs video_id \<longleftrightarrow>
     (case map_of (rev kvs) ''url'' of
        Some (JStr u) \<Rightarrow>
          strip u \<noteq> [] \<and> is_valid_youtube_url (strip u) \<and>
          extract_video_id sl (strip u) = Some video_id
      | _ \<Rightarrow> False) \<and>
     length video_id = 11 \<and>
     get_cached_info (CACHE_DIR env) (cache_files w) (lookup_time env)
       (get_cache_key sl (''https://www.youtube.com/watch?v='' @ video_id)) = Inr None"

text \<open>
  A request to \<open>/download\<close> gets as far as the temporary directory: both arguments are
  there and not empty, the URL passes the validation, and \<open>mkdtemp\<close> creates
  \<open>temp_dir\<close>.
\<close>

definition download_begins ::
  "download_env \<Rightarrow> download_args \<Rightarrow> string \<Rightarrow> string \<Rightarrow> string \<Rightarrow> bool" where
  "download_begins env args url itag_arg temp_dir \<longleftrightarrow>
     arg_url args = Some url \<and> url \<noteq> [] \<and> arg_itag args = Some itag_arg \<and>
     itag_arg \<noteq> [] \<and> is_valid_youtube_url url \<and> mkdtemp env = Inr temp_dir"

text \<open>A video identifier: eleven characters of \<open>[0-9A-Za-z_-]\<close>.\<close>

definition video_id_ok :: "string \<Rightarrow> bool" where
  "video_id_ok vid \<longleftrightarrow> length vid = 11 \<and> list_all id_char vid"

section \<open>Example inputs\<close>

definition raw_entry ::
  "string \<Rightarrow> string \<Rightarrow> string \<Rightarrow> int option \<Rightarrow> string option \<Rightarrow> real option \<Rightarrow> raw_format" where
  "raw_entry vc ac e h fid abr =
     \<lparr> f_vcodec = Some vc, f_acodec = Some ac, f_ext = Some e, f_height = h,
       f_format_id = fid, f_abr = abr, f_filesize = None, f_filesize_approx = None \<rparr>"

definition info_of :: "raw_format list \<Rightarrow> ydl_info" where
  "info_of fmts = \<lparr> i_title = Some ''t'', i_thumbnail = None, i_formats = fmts \<rparr>"

text \<open>Two audio-only entries in the order yt-dlp lists them, lowest bitrate first.\<close>

definition audio_48 :: raw_format where
  "audio_48 = raw_entry ''none'' ''mp4a.40.5'' ''m4a'' None (Some ''139'') (Some 48)"

definition audio_128 :: raw_format where
  "audio_128 = raw_entry ''none'' ''mp4a.40.2'' ''m4a'' None (Some ''140'') (Some 128)"

definition video_360 :: raw_format where
  "video_360 = raw_entry ''avc1.42001E'' ''mp4a.40.2'' ''mp4'' (Some 360) (Some ''18'') None"

definition video_720 :: raw_format where
  "video_720 = raw_entry ''avc1.64001F'' ''mp4a.40.2'' ''mp4'' (Some 720) (Some ''22'') None"

text \<open>A second progressive 720p entry, and one at 144p, a label off the allow-list.\<close>

definition video_720_second :: raw_format where
  "video_720_second = raw_entry ''avc1.64001F'' ''mp4a.40.2'' ''mp4'' (Some 720) (Some ''136'') None"

definition video_144 :: raw_format where
  "video_144 = raw_entry ''avc1.42001E'' ''mp4a.40.2'' ''mp4'' (Some 144) (Some ''17'') None"

text \<open>A progressive 720p entry of the container \<open>mp4\<close> with no format identifier.\<close>

definition video_720_no_id :: raw_format where
  "video_720_no_id = raw_entry ''avc1.64001F'' ''mp4a.40.2'' ''mp4'' (Some 720) None None"

definition example_stream :: "int \<Rightarrow> string option \<Rightarrow> string option \<Rightarrow> stream" where
  "example_stream n res abr =
     \<lparr> s_itag = n, s_mime_type = ''video/mp4'', s_resolution = res, s_abr = abr,
       s_filesize = Some 1048576 \<rparr>"

definition example_yt :: yt_answer where
  "example_yt =
     \<lparr> yt_title = ''t'', yt_thumbnail_url = ''u'',
       yt_progressive_streams =
         [example_stream 18 (Some ''360p'') None, example_stream 22 (Some ''720p'') None],
       yt_audio_streams = [example_stream 140 None (Some ''128kbps'')] \<rparr>"

definition empty_world :: world where
  "empty_world = \<lparr> cache_files = Map.empty, tmp_dirs = [], calls = [] \<rparr>"

definition example_env :: info_env where
  "example_env =
     \<lparr> CACHE_DIR = ''/tmp/youtube_cache_x'', lookup_time = 100, store_time = 101,
       write_fate = WriteOk \<rparr>"

text \<open>A run of \<open>download\<close> where the directory is created, the collaborator raises
  nothing, the video has the streams 18 and 22, and nothing is left on disk by the
  download.\<close>

definition quiet_download_env :: download_env where
  "quiet_download_env =
     \<lparr> mkdtemp = Inr ''/tmp/tmpk3x'',
       yt_streams = (\<lambda>u. Inr [18, 22]),
       stream_download = (\<lambda>n d. Inr None),
       ydl_download = (\<lambda>u f t. Inr ()),
       os_walk = (\<lambda>d. [(d, [])]),
       path_exists = (\<lambda>p. False),
       read_file = (\<lambda>p. Inl (Exn ''FileNotFoundError'' p)) \<rparr>"

text \<open>Stand-ins for the parameters of the standard library, for runs on concrete
  inputs; none of the runs below depends on what they return.\<close>

definition example_stdlib :: stdlib where
  "example_stdlib =
     \<lparr> unquote_pct = (\<lambda>s. s), bracketed_host_ok = (\<lambda>s. True),
       md5_hexdigest = (\<lambda>s. ''k'' @ show_nat (length s)), repr_str = (\<lambda>s. s) \<rparr>"

definition example_info :: video_info where
  "example_info = \<lparr> title = ''t'', thumbnail = ''u'', formats = [] \<rparr>"

text \<open>Answers of pytubefix: an error, and a video with no streams. A raw entry of
  yt-dlp that is an audio track in a container the resolver does not take.\<close>

definition failing_YouTube :: "string \<Rightarrow> exn + yt_answer" where
  "failing_YouTube u = Inl (Exn ''VideoUnavailable'' ''This video is unavailable'')"

definition no_streams_yt :: yt_answer where
  "no_streams_yt =
     \<lparr> yt_title = ''t'', yt_thumbnail_url = ''u'', yt_progressive_streams = [],
       yt_audio_streams = [] \<rparr>"

definition audio_only_webm :: raw_format where
  "audio_only_webm = raw_entry ''none'' ''opus'' ''webm'' None (Some ''251'') (Some 160)"

definition rick :: string where
  "rick = ''https://www.youtube.com/watch?v=dQw4w9WgXcQ''"

section \<open>Properties of the format lists\<close>

subsection \<open>The loops, as deduplication that keeps the first occurrence\<close>

lemma sort_priority_rank: "sort_priority d = label_rank (quality d)"
  by (simp add: sort_priority_def label_rank_def quality_priorities_def)

lemma app_video_loop_keep_first:
  "app_video_loop ss seen acc =
     acc @ map (\<lambda>s. app_video_descriptor s (stream_label s))
             (keep_first stream_label
                (filter (\<lambda>s. stream_label s \<in> set quality_priorities \<and> stream_label s \<notin> seen) ss))"
proof (induction ss seen acc rule: app_video_loop.induct)
  case (1 seen acc)
  show ?case by simp
next
  case (2 s ss seen acc)
  show ?case
  proof (cases "s_resolution s")
    case None
    then have "stream_label s \<notin> set quality_priorities"
      by (simp add: stream_label_def quality_priorities_def)
    with None 2(1) show ?thesis by simp
  next
    case (Some q)
    then have lab: "stream_label s = q" by (simp add: stream_label_def)
    show ?thesis
    proof (cases "q \<noteq> [] \<and> q \<notin> seen \<and> q \<in> set quality_priorities")
      case True
      have "filter (\<lambda>y. stream_label y \<noteq> q)
              (filter (\<lambda>s. stream_label s \<in> set quality_priorities \<and> stream_label s \<notin> seen) ss)
            = filter (\<lambda>s. stream_label s \<in> set quality_priorities \<and> stream_label s \<notin> insert q seen) ss"
        by (auto intro: filter_cong)
      with True Some lab 2(2) [OF Some True] show ?thesis by simp
    next
      case False
      then have "\<not> (stream_label s \<in> set quality_priorities \<and> stream_label s \<notin> seen)"
        using lab by (auto simp: quality_priorities_def)
      with False Some 2(3) [OF Some False] show ?thesis by auto
    qed
  qed
qed

lemma listed_height: "resolution_label fmt \<in> set quality_priorities \<Longrightarrow> truthy_int (f_height fmt)"
  apply (cases "f_height fmt")
  apply (auto simp: resolution_label_def quality_priorities_def str_of_int_def truthy_int_def show_int_def show_nat.simps digit_char_def)
  done

lemma prod_video_entry_iff:
  "prod_video_entry fmt \<and> resolution_label fmt \<in> set quality_priorities \<longleftrightarrow> identified_video_entry fmt"
  using listed_height [of fmt]
  by (auto simp: prod_video_entry_def identified_video_entry_def listed_video_entry_def progressive_def)

lemma prod_video_loop_keep_first:
  "prod_video_loop fs seen acc =
     acc @ map (\<lambda>f. prod_video_descriptor f (resolution_label f))
             (keep_first resolution_label
                (filter (\<lambda>f. identified_video_entry f \<and> resolution_label f \<notin> seen) fs))"
proof (induction fs seen acc rule: prod_video_loop.induct)
  case (1 seen acc)
  show ?case by simp
next
  case (2 fmt fmts seen acc)
  let ?q = "resolution_label fmt"
  show ?case
  proof (cases "prod_video_entry fmt \<and> ?q \<notin> seen \<and> ?q \<in> set quality_priorities")
    case True
    then have idf: "identified_video_entry fmt" using prod_video_entry_iff by blast
    have "filter (\<lambda>y. resolution_label y \<noteq> ?q)
            (filter (\<lambda>f. identified_video_entry f \<and> resolution_label f \<notin> seen) fmts)
          = filter (\<lambda>f. identified_video_entry f \<and> resolution_label f \<notin> insert ?q seen) fmts"
      by (auto intro: filter_cong)
    with True idf 2(1) [of ?q] show ?thesis by (simp add: resolution_label_def)
  next
    case False
    then have n: "\<not> (identified_video_entry fmt \<and> ?q \<notin> seen)"
      using prod_video_entry_iff by blast
    from False 2(2) [of ?q] 2(3) n show ?thesis
      by (auto simp add: resolution_label_def Let_def)
  qed
qed


lemma keep_first_subset: "set (keep_first lab xs) \<subseteq> set xs"
  by (induction lab xs rule: keep_first.induct) auto

lemma keep_first_distinct: "distinct (map lab (keep_first lab xs))"
proof (induction lab xs rule: keep_first.induct)
  case (1 lab)
  show ?case by simp
next
  case (2 lab x xs)
  have "lab x \<notin> lab ` set (keep_first lab (filter (\<lambda>y. lab y \<noteq> lab x) xs))"
    using keep_first_subset [of lab "filter (\<lambda>y. lab y \<noteq> lab x) xs"] by auto
  with 2 show ?case by simp
qed

lemma distinct_map_sort_key: "distinct (map g (sort_key f xs)) = distinct (map g xs)"
  by (simp add: distinct_map)

lemma app_audio_ftype: "d \<in> set (app_audio ss) \<Longrightarrow> ftype d = ''audio''"
  by (auto simp: app_audio_def app_audio_descriptor_def Let_def split: list.splits)

lemma prod_audio_loop_ftype: "d \<in> set (prod_audio_loop fs) \<Longrightarrow> ftype d = ''audio''"
  by (induction fs) (auto simp: prod_audio_descriptor_def Let_def split: if_splits)

lemma prod_audio_loop_length: "length (prod_audio_loop fs) \<le> 1"
  by (induction fs) auto

lemma app_audio_length: "length (app_audio ss) \<le> 1"
  by (simp add: app_audio_def split: list.splits)

lemma video_audio_split:
  assumes "\<And>d. d \<in> set vs \<Longrightarrow> ftype d = ''video''"
      and "\<And>d. d \<in> set as \<Longrightarrow> ftype d = ''audio''"
  shows "video_descriptors (vs @ as) = vs" and "audio_descriptors (vs @ as) = as"
proof -
  have "filter (\<lambda>d. ftype d = ''video'') vs = vs" "filter (\<lambda>d. ftype d = ''video'') as = []"
       "filter (\<lambda>d. ftype d = ''audio'') vs = []" "filter (\<lambda>d. ftype d = ''audio'') as = as"
    using assms by (auto simp: filter_empty_conv filter_id_conv)
  then show "video_descriptors (vs @ as) = vs" and "audio_descriptors (vs @ as) = as"
    by (simp_all add: video_descriptors_def audio_descriptors_def)
qed

lemma app_formats_split:
  "app_formats yt =
     sort_key sort_priority
       (map (\<lambda>s. app_video_descriptor s (stream_label s))
          (keep_first stream_label
             (filter (\<lambda>s. stream_label s \<in> set quality_priorities) (yt_progressive_streams yt))))
     @ app_audio (yt_audio_streams yt)"
  by (simp add: app_formats_def app_video_loop_keep_first)

lemma prod_formats_split:
  "prod_formats info =
     sort_key sort_priority
       (map (\<lambda>f. prod_video_descriptor f (resolution_label f))
          (keep_first resolution_label (filter identified_video_entry (i_formats info))))
     @ prod_audio_loop (i_formats info)"
  by (simp add: prod_formats_def prod_video_loop_keep_first)

lemma app_videos:
  "video_descriptors (app_formats yt) =
     sort_key sort_priority
       (map (\<lambda>s. app_video_descriptor s (stream_label s))
          (keep_first stream_label
             (filter (\<lambda>s. stream_label s \<in> set quality_priorities) (yt_progressive_streams yt))))"
  unfolding app_formats_split
  by (rule video_audio_split(1)) (auto simp: app_video_descriptor_def dest: app_audio_ftype)

lemma app_audios: "audio_descriptors (app_formats yt) = app_audio (yt_audio_streams yt)"
  unfolding app_formats_split
  by (rule video_audio_split(2)) (auto simp: app_video_descriptor_def dest: app_audio_ftype)

lemma prod_videos:
  "video_descriptors (prod_formats info) =
     sort_key sort_priority
       (map (\<lambda>f. prod_video_descriptor f (resolution_label f))
          (keep_first resolution_label (filter identified_video_entry (i_formats info))))"
  unfolding prod_formats_split
  by (rule video_audio_split(1)) (auto simp: prod_video_descriptor_def dest: prod_audio_loop_ftype)

lemma prod_audios: "audio_descriptors (prod_formats info) = prod_audio_loop (i_formats info)"
  unfolding prod_formats_split
  by (rule video_audio_split(2)) (auto simp: prod_video_descriptor_def dest: prod_audio_loop_ftype)

lemma sorted_rank_sort: "sorted (map (\<lambda>d. label_rank (quality d)) (sort_key sort_priority xs))"
  using sorted_sort_key [of sort_priority xs] by (simp add: sort_priority_rank [abs_def])


subsection \<open>Order of the descriptors\<close>

text \<open>
  Claim C4. In the list of formats of either resolver the video descriptors come first
  and the audio descriptors after them; the video descriptors are sorted by the rank of
  their label (1080p, 720p, 480p, 360p, 240p, then any other label); there is at most
  one audio descriptor. The last conjunct is the sort step on any list of descriptors:
  it puts a label outside the list of priorities after all the listed ones.
\<close>

theorem formats_ordered:
  "app_formats yt = video_descriptors (app_formats yt) @ audio_descriptors (app_formats yt) \<and>
   sorted (map (\<lambda>d. label_rank (quality d)) (video_descriptors (app_formats yt))) \<and>
   length (audio_descriptors (app_formats yt)) \<le> 1 \<and>
   prod_formats info = video_descriptors (prod_formats info) @ audio_descriptors (prod_formats info) \<and>
   sorted (map (\<lambda>d. label_rank (quality d)) (video_descriptors (prod_formats info))) \<and>
   length (audio_descriptors (prod_formats info)) \<le> 1 \<and>
   sorted (map (\<lambda>d. label_rank (quality d)) (sort_key sort_priority xs))"
proof -
  have a: "app_formats yt = video_descriptors (app_formats yt) @ audio_descriptors (app_formats yt)"
    unfolding app_videos app_audios by (rule app_formats_split)
  have p: "prod_formats info
             = video_descriptors (prod_formats info) @ audio_descriptors (prod_formats info)"
    unfolding prod_videos prod_audios by (rule prod_formats_split)
  have sa: "sorted (map (\<lambda>d. label_rank (quality d)) (video_descriptors (app_formats yt)))"
    unfolding app_videos by (rule sorted_rank_sort)
  have sp: "sorted (map (\<lambda>d. label_rank (quality d)) (video_descriptors (prod_formats info)))"
    unfolding prod_videos by (rule sorted_rank_sort)
  have la: "length (audio_descriptors (app_formats yt)) \<le> 1"
    unfolding app_audios by (rule app_audio_length)
  have lp: "length (audio_descriptors (prod_formats info)) \<le> 1"
    unfolding prod_audios by (rule prod_audio_loop_length)
  from a sa la p sp lp sorted_rank_sort [of xs] show ?thesis by blast
qed


text \<open>The example of the specification: entries at 360p, 1080p and 480p come out as
  1080p, 480p, 360p, and a label such as 144p sorts after them.\<close>

lemma sort_example:
  "map quality (sort_key sort_priority
     (map (\<lambda>q. \<lparr> ftype = ''video'', quality = q, mime_type = ''video/mp4'', itag = ''1'',
                 filesize_mb = None, format_id = None, ext = ''mp4'' \<rparr>)
        [''360p'', ''144p'', ''1080p'', ''480p'']))
   = [''1080p'', ''480p'', ''360p'', ''144p'']"
  by code_simp

subsection \<open>Which entries become video descriptors\<close>

text \<open>
  What the two resolvers emit, whatever the raw list holds. The video descriptors of
  \<open>app.py\<close> are those of the streams of the progressive \<open>mp4\<close> query whose resolution
  is on the allow-list, the first stream of every label. The video descriptors of
  \<open>production.py\<close> are those of the entries that are progressive, of the container
  \<open>mp4\<close>, labelled on the allow-list and that pass the test of the loop on the format
  identifier, the first such entry of every label. Both lists are in the order of the
  priorities, and no label occurs twice.
\<close>

lemma video_descriptors_identified:
  "video_descriptors (app_formats yt) =
     sort_key sort_priority
       (map (\<lambda>s. app_video_descriptor s (stream_label s))
          (keep_first stream_label
             (filter (\<lambda>s. stream_label s \<in> set quality_priorities) (yt_progressive_streams yt)))) \<and>
   video_descriptors (prod_formats info) =
     sort_key sort_priority
       (map (\<lambda>f. prod_video_descriptor f (resolution_label f))
          (keep_first resolution_label (filter identified_video_entry (i_formats info)))) \<and>
   distinct (map quality (video_descriptors (app_formats yt))) \<and>
   distinct (map quality (video_descriptors (prod_formats info)))"
proof -
  have qa: "map quality (map (\<lambda>s. app_video_descriptor s (stream_label s)) ss) = map stream_label ss" for ss
    by (simp add: app_video_descriptor_def)
  have qp: "map quality (map (\<lambda>f. prod_video_descriptor f (resolution_label f)) fs) = map resolution_label fs" for fs
    by (simp add: prod_video_descriptor_def)
  show ?thesis
    unfolding app_videos prod_videos distinct_map_sort_key qa qp
    by (simp add: keep_first_distinct)
qed


text \<open>The test on the format identifier passes on every entry that has one.\<close>

lemma identified_is_listed:
  assumes "\<forall>f\<in>set fs. truthy_str (f_format_id f)"
  shows "filter identified_video_entry fs = filter listed_video_entry fs"
  using assms by (intro filter_cong) (auto simp: identified_video_entry_def)

text \<open>
  Claim C7. The raw entries of yt-dlp carry a format identifier, each of them. Then
  the video descriptors of \<open>production.py\<close> are exactly those of the progressive
  entries of the container \<open>mp4\<close> whose resolution label is on the allow-list, with
  one descriptor per label, that of the first such entry in the raw list. Those of
  \<open>app.py\<close> are exactly those of the streams of the progressive \<open>mp4\<close> query whose
  resolution is on the allow-list, one per label, the first of each. The lists are in
  the order of the priorities, and no label occurs twice.
\<close>

theorem video_descriptors_exact:
  assumes "\<forall>f\<in>set (i_formats info). truthy_str (f_format_id f)"
  shows
  "video_descriptors (app_formats yt) =
     sort_key sort_priority
       (map (\<lambda>s. app_video_descriptor s (stream_label s))
          (keep_first stream_label
             (filter (\<lambda>s. stream_label s \<in> set quality_priorities) (yt_progressive_streams yt)))) \<and>
   video_descriptors (prod_formats info) =
     sort_key sort_priority
       (map (\<lambda>f. prod_video_descriptor f (resolution_label f))
          (keep_first resolution_label (filter listed_video_entry (i_formats info)))) \<and>
   distinct (map quality (video_descriptors (app_formats yt))) \<and>
   distinct (map quality (video_descriptors (prod_formats info)))"
  using video_descriptors_identified [of yt info]
  unfolding identified_is_listed [OF assms] .

theorem video_descriptors_exact_witness:
  "list_all (\<lambda>f. truthy_str (f_format_id f))
     (i_formats (info_of [audio_48, video_360, video_144, video_720, video_720_second])) \<and>
   map itag (video_descriptors
       (prod_formats (info_of [audio_48, video_360, video_144, video_720, video_720_second])))
     = [''22'', ''18''] \<and>
   map quality (video_descriptors
       (prod_formats (info_of [audio_48, video_360, video_144, video_720, video_720_second])))
     = [''720p'', ''360p''] \<and>
   map itag (video_descriptors (app_formats example_yt)) = [''22'', ''18'']"
proof -
  have h: "\<forall>f\<in>set (i_formats (info_of [audio_48, video_360, video_144, video_720,
                                          video_720_second])).
             truthy_str (f_format_id f)"
    by (simp add: info_of_def audio_48_def video_360_def video_144_def video_720_def
        video_720_second_def raw_entry_def truthy_str_def)
  have p: "sort_key sort_priority
       (map (\<lambda>f. prod_video_descriptor f (resolution_label f))
          (keep_first resolution_label
             (filter listed_video_entry
                (i_formats (info_of [audio_48, video_360, video_144, video_720,
                                     video_720_second])))))
       = [prod_video_descriptor video_720 ''720p'', prod_video_descriptor video_360 ''360p'']"
    by code_simp
  have a: "sort_key sort_priority
       (map (\<lambda>s. app_video_descriptor s (stream_label s))
          (keep_first stream_label
             (filter (\<lambda>s. stream_label s \<in> set quality_priorities)
                (yt_progressive_streams example_yt))))
       = [app_video_descriptor (example_stream 22 (Some ''720p'') None) ''720p'',
          app_video_descriptor (example_stream 18 (Some ''360p'') None) ''360p'']"
    by code_simp
  have i: "map itag [prod_video_descriptor video_720 ''720p'',
                     prod_video_descriptor video_360 ''360p''] = [''22'', ''18'']"
          "map quality [prod_video_descriptor video_720 ''720p'',
                        prod_video_descriptor video_360 ''360p''] = [''720p'', ''360p'']"
          "map itag [app_video_descriptor (example_stream 22 (Some ''720p'') None) ''720p'',
                     app_video_descriptor (example_stream 18 (Some ''360p'') None) ''360p'']
             = [''22'', ''18'']"
    by code_simp+
  from h have l: "list_all (\<lambda>f. truthy_str (f_format_id f))
     (i_formats (info_of [audio_48, video_360, video_144, video_720, video_720_second]))"
    by (simp only: list_all_iff)
  from video_descriptors_exact [OF h, of example_yt] p a i l show ?thesis
    by simp
qed

text \<open>The test of the loop on the format identifier: an entry without one is skipped,
  progressive, \<open>mp4\<close> and on the allow-list though it is.\<close>

lemma entry_without_identifier_skipped:
  "listed_video_entry video_720_no_id \<and>
   video_descriptors (prod_formats (info_of [video_720_no_id])) = []"
  by code_simp

subsection \<open>The extension field\<close>

text \<open>
  Claim C10. Every descriptor in the list of formats of either resolver, video or audio,
  has the extension field \<open>mp4\<close>.
\<close>

theorem every_descriptor_has_ext_mp4:
  "(\<forall>d\<in>set (app_formats yt). ext d = ''mp4'') \<and>
   (\<forall>d\<in>set (prod_formats info). ext d = ''mp4'')"
proof -
  have "ext d = ''mp4''" if "d \<in> set (app_audio ss)" for d ss
    using that
    by (auto simp: app_audio_def app_audio_descriptor_def Let_def split: list.splits)
  moreover have "ext d = ''mp4''" if "d \<in> set (prod_audio_loop fs)" for d fs
    using that
    by (induction fs) (auto simp: prod_audio_descriptor_def Let_def split: if_splits)
  ultimately show ?thesis
    unfolding app_formats_split prod_formats_split
    by (auto simp: app_video_descriptor_def prod_video_descriptor_def)
qed

theorem every_descriptor_has_ext_mp4_witness:
  "app_audio_descriptor (example_stream 140 None (Some ''128kbps'')) \<in> set (app_formats example_yt) \<and>
   ext (app_audio_descriptor (example_stream 140 None (Some ''128kbps''))) = ''mp4'' \<and>
   prod_audio_descriptor audio_48 \<in> set (prod_formats (info_of [audio_48, video_360])) \<and>
   ext (prod_audio_descriptor audio_48) = ''mp4'' \<and>
   quality (prod_audio_descriptor audio_48) = ''MP3 48kbps''"
proof -
  have a: "app_audio_descriptor (example_stream 140 None (Some ''128kbps''))
             \<in> set (app_formats example_yt)"
    by (simp add: app_formats_def example_yt_def app_audio_def)
  have p: "prod_audio_descriptor audio_48 \<in> set (prod_formats (info_of [audio_48, video_360]))"
    by (simp add: prod_formats_def info_of_def prod_audio_entry_def audio_48_def raw_entry_def
        truthy_str_def)
  have q: "quality (prod_audio_descriptor audio_48) = ''MP3 48kbps''"
    by code_simp
  from a p q every_descriptor_has_ext_mp4 [of example_yt "info_of [audio_48, video_360]"]
  show ?thesis by blast
qed

subsection \<open>The audio descriptor\<close>

text \<open>What the two resolvers emit: \<open>app.py\<close> the first stream of the audio query,
  \<open>production.py\<close> the first entry of the raw list that passes the audio test.\<close>

lemma prod_audio_loop_first:
  "prod_audio_loop fs =
     (case filter prod_audio_entry fs of [] \<Rightarrow> [] | f # rest \<Rightarrow> [prod_audio_descriptor f])"
  by (induction fs) auto

text \<open>
  Claim C2, on \<open>production.py\<close>. The raw list holds two audio-only \<open>m4a\<close> entries, of
  48 and of 128 kbit/s in this order. The audio descriptor is that of the first one,
  labelled "MP3 48kbps", although the other has the higher bitrate.
\<close>

theorem prod_audio_is_first_not_best:
  "audio_only_entry audio_48 \<and> audio_only_entry audio_128 \<and>
   bitrate audio_48 < bitrate audio_128 \<and>
   audio_descriptors (prod_formats (info_of [audio_48, audio_128, video_360]))
     = [prod_audio_descriptor audio_48] \<and>
   quality (prod_audio_descriptor audio_48) = ''MP3 48kbps'' \<and>
   itag (prod_audio_descriptor audio_48) = ''139''"
proof -
  have "bitrate audio_48 < bitrate audio_128"
    by (simp add: bitrate_def audio_48_def audio_128_def raw_entry_def)
  moreover have "audio_only_entry audio_48 \<and> audio_only_entry audio_128"
    by (simp add: audio_only_entry_def audio_48_def audio_128_def raw_entry_def)
  moreover have "audio_descriptors (prod_formats (info_of [audio_48, audio_128, video_360]))
                   = [prod_audio_descriptor audio_48]"
    unfolding prod_audios
    by (simp add: info_of_def prod_audio_entry_def audio_48_def raw_entry_def truthy_str_def)
  moreover have "quality (prod_audio_descriptor audio_48) = ''MP3 48kbps''"
    by code_simp
  moreover have "itag (prod_audio_descriptor audio_48) = ''139''"
    by code_simp
  ultimately show ?thesis by blast
qed

section \<open>Properties of the cache\<close>

lemma get_cached_info_Inr: "\<exists>r. get_cached_info d fs now k = Inr r"
  by (simp add: get_cached_info_def Let_def split: option.splits sum.splits)

lemma cache_info_Inr: "\<exists>fs'. cache_info d wo fs now k i = Inr fs'"
  by (simp add: cache_info_def Let_def split: prod.splits sum.splits)

text \<open>
  Claim C6. After \<open>cache_info\<close> has written the record of \<open>info\<close> for the URL \<open>u\<close> at
  the time \<open>t\<close>, \<open>get_cached_info\<close> for \<open>u\<close> at the time \<open>t'\<close> returns \<open>info\<close> as long
  as \<open>t' - t < 3600\<close>, in particular at once, and \<open>None\<close> when 3600 seconds or more
  have passed. The write is one that succeeds; a write that fails is the matter of
  claim C9.
\<close>

theorem cache_round_trip:
  assumes "cache_info d WriteOk fs t (get_cache_key sl u) info = Inr fs'"
  shows "get_cached_info d fs' t' (get_cache_key sl u)
           = Inr (if t' - t < 3600 then Some info else None)"
  using assms
  by (auto simp: cache_info_def cache_info_try_def get_cached_info_def get_cached_info_try_def
      json_load_file_def data_timestamp_def data_info_def time_minus_def CACHE_DURATION_def
      Let_def)

theorem cache_round_trip_witness:
  "cache_info ''/c'' WriteOk Map.empty 10 (get_cache_key example_stdlib rick) example_info
     = Inr [os_path_join ''/c'' (get_cache_key example_stdlib rick @ ''.json'')
              \<mapsto> Holds (JsonDict (Some (TsNumber 10)) (Some example_info))] \<and>
   get_cached_info ''/c''
       [os_path_join ''/c'' (get_cache_key example_stdlib rick @ ''.json'')
          \<mapsto> Holds (JsonDict (Some (TsNumber 10)) (Some example_info))]
       10 (get_cache_key example_stdlib rick) = Inr (Some example_info) \<and>
   get_cached_info ''/c''
       [os_path_join ''/c'' (get_cache_key example_stdlib rick @ ''.json'')
          \<mapsto> Holds (JsonDict (Some (TsNumber 10)) (Some example_info))]
       3610 (get_cache_key example_stdlib rick) = Inr None"
proof -
  have s: "cache_info ''/c'' WriteOk Map.empty 10 (get_cache_key example_stdlib rick) example_info
     = Inr [os_path_join ''/c'' (get_cache_key example_stdlib rick @ ''.json'')
              \<mapsto> Holds (JsonDict (Some (TsNumber 10)) (Some example_info))]"
    by (simp add: cache_info_def cache_info_try_def Let_def)
  from cache_round_trip [OF s, of 10] cache_round_trip [OF s, of 3610] s
  show ?thesis by simp
qed

text \<open>
  Claim C9. \<open>get_cached_info\<close> never raises: it returns, and it returns \<open>None\<close> when
  the file is missing, cannot be opened, cannot be parsed, is no dictionary, or lacks
  a numeric \<open>timestamp\<close> or the key \<open>info\<close>. \<open>cache_info\<close> never raises either, a
  failing \<open>open\<close> leaves the files as they were, and the response of
  \<open>get_video_info\<close> is the same whatever happens to the write.
\<close>

theorem cache_never_raises:
  "(\<exists>r. get_cached_info d fs now k = Inr r) \<and>
   get_cached_info d (fs(os_path_join d (k @ ''.json'') := None)) now k = Inr None \<and>
   get_cached_info d (fs(os_path_join d (k @ ''.json'') \<mapsto> Unreadable)) now k = Inr None \<and>
   get_cached_info d (fs(os_path_join d (k @ ''.json'') \<mapsto> Unparsable)) now k = Inr None \<and>
   get_cached_info d (fs(os_path_join d (k @ ''.json'') \<mapsto> Holds JsonOther)) now k = Inr None \<and>
   get_cached_info d (fs(os_path_join d (k @ ''.json'') \<mapsto> Holds (JsonDict None i))) now k = Inr None \<and>
   get_cached_info d (fs(os_path_join d (k @ ''.json'') \<mapsto> Holds (JsonDict (Some TsOther) i))) now k = Inr None \<and>
   get_cached_info d (fs(os_path_join d (k @ ''.json'') \<mapsto> Holds (JsonDict ts None))) now k = Inr None \<and>
   (\<exists>fs'. cache_info d wo fs now k info = Inr fs') \<and>
   cache_info d (OpenFails e) fs now k info = Inr fs \<and>
   fst (get_video_info resolve sl (env\<lparr> write_fate := wo \<rparr>) w req)
     = fst (get_video_info resolve sl env w req)"
proof -
  have r: "fst (get_video_info_for_id resolve sl (env\<lparr> write_fate := wo \<rparr>) w v)
         = fst (get_video_info_for_id resolve sl env w v)" for w v
    by (simp add: get_video_info_for_id_def cache_info_def Let_def
        split: option.splits sum.splits prod.splits)
  have u: "fst (get_video_info_for_url resolve sl (env\<lparr> write_fate := wo \<rparr>) w x)
         = fst (get_video_info_for_url resolve sl env w x)" for w x
    by (simp add: get_video_info_for_url_def r Let_def split: option.splits)
  have h: "fst (get_video_info resolve sl (env\<lparr> write_fate := wo \<rparr>) w req)
     = fst (get_video_info resolve sl env w req)"
    by (simp add: get_video_info_def u split: request_body.splits sum.splits bool.splits)
  have m: "get_cached_info d (fs(os_path_join d (k @ ''.json'') \<mapsto> Holds (JsonDict ts None))) now k = Inr None"
    by (cases ts; cases "the ts")
      (simp_all add: get_cached_info_def get_cached_info_try_def json_load_file_def
        data_timestamp_def data_info_def time_minus_def Let_def)
  show ?thesis
    using get_cached_info_Inr [of d fs now k] cache_info_Inr [of d wo fs now k info] h m
    by (simp add: get_cached_info_def get_cached_info_try_def json_load_file_def
        data_timestamp_def time_minus_def cache_info_def cache_info_try_def Let_def)
qed


section \<open>Properties of the handlers\<close>

text \<open>A body that is a JSON object with a string under \<open>url\<close> takes the handler to the
  checks of the stripped string.\<close>

lemma url_field:
  assumes "map_of (rev kvs) ''url'' = Some (JStr u)"
  shows "get_video_info resolve sl env w (Json (JObj kvs))
           = get_video_info_for_url resolve sl env w (strip u)"
proof -
  from assms have "(''url'', JStr u) \<in> set (rev kvs)" by (rule map_of_SomeD)
  then have m: "''url'' \<in> fst ` set kvs" by force
  then have "kvs \<noteq> []" by auto
  with m assms show ?thesis by (simp add: get_video_info_def)
qed

subsection \<open>Rejection of a string that matches neither pattern\<close>

text \<open>
  Claim C8. For a string \<open>url\<close> that matches neither pattern, the validation is false;
  a request to \<open>/get_video_info\<close> whose stripped \<open>url\<close> is this string is answered
  400, and the only call the handler makes is the validation (none, when the string is
  empty): the extraction is not called. A request to \<open>/download\<close> with this URL is
  answered 400, creates no temporary directory and calls no extraction.
\<close>

theorem invalid_url_rejected:
  assumes "\<not> re_match youtube_regex url" and "\<not> re_match youtu_be_regex url"
  shows "\<not> is_valid_youtube_url url \<and>
    (map_of (rev kvs) ''url'' = Some (JStr u) \<and> strip u = url \<longrightarrow>
       status (fst (get_video_info resolve sl env w (Json (JObj kvs)))) = 400 \<and>
       calls (snd (get_video_info resolve sl env w (Json (JObj kvs))))
         = calls w @ (if url = [] then [] else [Call_is_valid_youtube_url url])) \<and>
    (arg_url args = Some url \<longrightarrow>
       status (fst (download try_body denv w args)) = 400 \<and>
       tmp_dirs (snd (download try_body denv w args)) = tmp_dirs w \<and>
       (\<forall>x. Call_extract_video_id x \<notin> set (calls (snd (download try_body denv w args)))
                                      - set (calls w)))"
proof -
  from assms have inv: "\<not> is_valid_youtube_url url"
    by (simp add: is_valid_youtube_url_def)
  have info: "status (fst (get_video_info_for_url resolve sl env w url)) = 400 \<and>
       calls (snd (get_video_info_for_url resolve sl env w url))
         = calls w @ (if url = [] then [] else [Call_is_valid_youtube_url url])"
    using inv by (simp add: get_video_info_for_url_def error_response_def called_def Let_def)
  have dl: "status (fst (download try_body denv w args)) = 400 \<and>
       tmp_dirs (snd (download try_body denv w args)) = tmp_dirs w \<and>
       (\<forall>x. Call_extract_video_id x \<notin> set (calls (snd (download try_body denv w args)))
                                      - set (calls w))"
    if "arg_url args = Some url"
    using inv that
    by (cases "arg_itag args")
       (auto simp: download_def error_response_def called_def Let_def)
  from inv info dl show ?thesis by (auto simp: url_field)
qed

theorem invalid_url_rejected_witness:
  "\<not> re_match youtube_regex ''https://vimeo.com/76979871'' \<and>
   \<not> re_match youtu_be_regex ''https://vimeo.com/76979871'' \<and>
   \<not> is_valid_youtube_url ''https://vimeo.com/76979871'' \<and>
   status (fst (get_video_info (app_resolve failing_YouTube) example_stdlib example_env
                  empty_world (Json (JObj [(''url'', JStr '' https://vimeo.com/76979871 '')]))))
     = 400 \<and>
   calls (snd (get_video_info (app_resolve failing_YouTube) example_stdlib example_env
                 empty_world (Json (JObj [(''url'', JStr '' https://vimeo.com/76979871 '')]))))
     = [Call_is_valid_youtube_url ''https://vimeo.com/76979871''] \<and>
   status (fst (download (app_download_try example_stdlib quiet_download_env)
                  quiet_download_env empty_world
                  \<lparr> arg_url = Some ''https://vimeo.com/76979871'', arg_itag = Some ''18'' \<rparr>))
     = 400 \<and>
   tmp_dirs (snd (download (app_download_try example_stdlib quiet_download_env)
                    quiet_download_env empty_world
                    \<lparr> arg_url = Some ''https://vimeo.com/76979871'', arg_itag = Some ''18'' \<rparr>))
     = []"
proof -
  have a: "\<not> re_match youtube_regex ''https://vimeo.com/76979871''" by code_simp
  have b: "\<not> re_match youtu_be_regex ''https://vimeo.com/76979871''" by code_simp
  have s: "strip '' https://vimeo.com/76979871 '' = ''https://vimeo.com/76979871''"
    by code_simp
  from a b s
    invalid_url_rejected [OF a b,
      where kvs = "[(''url'', JStr '' https://vimeo.com/76979871 '')]"
        and u = "'' https://vimeo.com/76979871 ''"
        and args = "\<lparr> arg_url = Some ''https://vimeo.com/76979871'', arg_itag = Some ''18'' \<rparr>"
        and resolve = "app_resolve failing_YouTube" and sl = example_stdlib
        and env = example_env and w = empty_world and denv = quiet_download_env
        and try_body = "app_download_try example_stdlib quiet_download_env"]
  show ?thesis by (simp add: empty_world_def)
qed

subsection \<open>The status of each class of failure\<close>

lemma reaches_for_id:
  assumes "reaches_collaborator sl env w kvs vid"
  shows "\<exists>w'. get_video_info resolve sl env w (Json (JObj kvs))
           = get_video_info_for_id resolve sl env w' vid \<and> cache_files w' = cache_files w"
proof -
  from assms obtain u where u: "map_of (rev kvs) ''url'' = Some (JStr u)"
    and s: "strip u \<noteq> []" "is_valid_youtube_url (strip u)"
           "extract_video_id sl (strip u) = Some vid" and l: "length vid = 11"
    by (auto simp: reaches_collaborator_def split: option.splits json.splits)
  from l have "vid \<noteq> []" by auto
  with s l show ?thesis
    unfolding url_field [OF u]
    by (auto simp: get_video_info_for_url_def Let_def called_def)
qed

lemma collaborator_error:
  assumes "reaches_collaborator sl env w kvs vid"
      and "resolve (''https://www.youtube.com/watch?v='' @ vid) vid = Inl e"
  shows "fst (get_video_info resolve sl env w (Json (JObj kvs)))
           = error_response 400 (''Error accessing YouTube: '' @ exn_str e)"
proof -
  from reaches_for_id [OF assms(1)] obtain w' where
    w': "get_video_info resolve sl env w (Json (JObj kvs))
           = get_video_info_for_id resolve sl env w' vid" "cache_files w' = cache_files w"
    by blast
  from assms(1) have "get_cached_info (CACHE_DIR env) (cache_files w) (lookup_time env)
       (get_cache_key sl (''https://www.youtube.com/watch?v='' @ vid)) = Inr None"
    by (simp add: reaches_collaborator_def)
  with w' assms(2) show ?thesis
    by (simp add: get_video_info_for_id_def Let_def called_def)
qed

lemma no_formats:
  assumes "reaches_collaborator sl env w kvs vid"
      and "resolve (''https://www.youtube.com/watch?v='' @ vid) vid = Inr (t, th, [])"
  shows "fst (get_video_info resolve sl env w (Json (JObj kvs)))
           = error_response 400
               ''No downloadable formats found. The video may have restrictions.''"
proof -
  from reaches_for_id [OF assms(1)] obtain w' where
    w': "get_video_info resolve sl env w (Json (JObj kvs))
           = get_video_info_for_id resolve sl env w' vid" "cache_files w' = cache_files w"
    by blast
  from assms(1) have "get_cached_info (CACHE_DIR env) (cache_files w) (lookup_time env)
       (get_cache_key sl (''https://www.youtube.com/watch?v='' @ vid)) = Inr None"
    by (simp add: reaches_collaborator_def)
  with w' assms(2) show ?thesis
    by (simp add: get_video_info_for_id_def Let_def called_def)
qed

lemma bad_request_400:
  "status (fst (get_video_info resolve sl env w NotJson)) = 400"
  "\<not> truthy_json data \<or> url_in data = Inr False \<Longrightarrow>
     status (fst (get_video_info resolve sl env w (Json data))) = 400"
  "map_of (rev kvs) ''url'' = Some (JStr u) \<Longrightarrow>
     strip u = [] \<or> \<not> is_valid_youtube_url (strip u) \<or>
     extract_video_id sl (strip u) = None \<or>
     (\<exists>v. extract_video_id sl (strip u) = Some v \<and> length v \<noteq> 11) \<Longrightarrow>
     status (fst (get_video_info resolve sl env w (Json (JObj kvs)))) = 400"
proof -
  show "status (fst (get_video_info resolve sl env w NotJson)) = 400"
    by (simp add: get_video_info_def error_response_def)
  show "status (fst (get_video_info resolve sl env w (Json data))) = 400"
    if "\<not> truthy_json data \<or> url_in data = Inr False"
    using that by (auto simp: get_video_info_def error_response_def)
  show "status (fst (get_video_info resolve sl env w (Json (JObj kvs)))) = 400"
    if u: "map_of (rev kvs) ''url'' = Some (JStr u)"
    and "strip u = [] \<or> \<not> is_valid_youtube_url (strip u) \<or>
     extract_video_id sl (strip u) = None \<or>
     (\<exists>v. extract_video_id sl (strip u) = Some v \<and> length v \<noteq> 11)"
    using that(2) unfolding url_field [OF u]
    by (auto simp: get_video_info_for_url_def error_response_def Let_def)
qed

lemma uncaught_500:
  "fst (get_video_info resolve sl env w (BadJson e)) = unexpected e"
  "truthy_json data \<Longrightarrow> url_in data = Inl e \<Longrightarrow>
     fst (get_video_info resolve sl env w (Json data)) = unexpected e"
  "map_of (rev kvs) ''url'' = Some j \<Longrightarrow> strip_of j = Inl e \<Longrightarrow>
     fst (get_video_info resolve sl env w (Json (JObj kvs))) = unexpected e"
  "status (unexpected e) = 500"
proof -
  show "fst (get_video_info resolve sl env w (BadJson e)) = unexpected e"
    by (simp add: get_video_info_def)
  show "fst (get_video_info resolve sl env w (Json data)) = unexpected e"
    if "truthy_json data" "url_in data = Inl e"
    using that by (simp add: get_video_info_def)
  show "fst (get_video_info resolve sl env w (Json (JObj kvs))) = unexpected e"
    if j: "map_of (rev kvs) ''url'' = Some j" and "strip_of j = Inl e"
  proof -
    from j have "(''url'', j) \<in> set (rev kvs)" by (rule map_of_SomeD)
    then have m: "''url'' \<in> fst ` set kvs" by force
    then have "kvs \<noteq> []" by auto
    with m that show ?thesis by (simp add: get_video_info_def)
  qed
  show "status (unexpected e) = 500"
    by (simp add: unexpected_def error_response_def)
qed

lemma download_400:
  "arg_url args = None \<or> arg_url args = Some [] \<or> arg_itag args = None \<or> arg_itag args = Some [] \<Longrightarrow>
     status (fst (download try_body denv w args)) = 400"
  "arg_url args = Some url \<Longrightarrow> \<not> is_valid_youtube_url url \<Longrightarrow>
     status (fst (download try_body denv w args)) = 400"
  by (cases "arg_url args"; cases "arg_itag args";
      auto simp: download_def error_response_def Let_def)+

lemma download_raise_500:
  assumes "download_begins denv args url it d"
  shows "fst (try_body url it d
               ((called (Call_is_valid_youtube_url url) w)
                  \<lparr> tmp_dirs := d # tmp_dirs (called (Call_is_valid_youtube_url url) w) \<rparr>)) = Inl e
         \<Longrightarrow> fst (download try_body denv w args) = download_error e"
    and "fst (download try_body denv w args)
          = (case fst (try_body url it d
               ((called (Call_is_valid_youtube_url url) w)
                  \<lparr> tmp_dirs := d # tmp_dirs (called (Call_is_valid_youtube_url url) w) \<rparr>)) of
               Inl e \<Rightarrow> download_error e | Inr r \<Rightarrow> r)"
  using assms
  by (auto simp: download_begins_def download_def Let_def split: prod.splits sum.splits)


lemma download_error_500: "status (download_error e) = 500"
  by (simp add: download_error_def error_response_def)

lemma app_download_raises:
  assumes b: "download_begins denv args url it d"
      and r: "yt_streams denv url = Inl e \<or>
              (\<exists>itags. yt_streams denv url = Inr itags \<and>
                 (py_int sl it = Inl e \<or>
                  (\<exists>n. py_int sl it = Inr n \<and> n \<in> set itags \<and>
                     (stream_download denv n d = Inl e \<or>
                      (\<exists>p. stream_download denv n d = Inr (Some p) \<and> p \<noteq> [] \<and>
                           path_exists denv p \<and> read_file denv p = Inl e)))))"
  shows "fst (app_download sl denv w args) = download_error e"
  unfolding app_download_def
  by (rule download_raise_500(1) [OF b])
     (use r in \<open>auto simp: app_download_try_def Let_def\<close>)

lemma app_download_missing:
  assumes b: "download_begins denv args url it d"
      and r: "yt_streams denv url = Inr itags" "py_int sl it = Inr n" "n \<in> set itags"
             "stream_download denv n d = Inr None \<or>
              (\<exists>p. stream_download denv n d = Inr (Some p) \<and> (p = [] \<or> \<not> path_exists denv p))"
  shows "fst (app_download sl denv w args)
           = error_response 500 ''Download failed or file not found''"
  unfolding app_download_def download_raise_500(2) [OF b]
  using r by (auto simp: app_download_try_def Let_def)

lemma prod_download_raises:
  assumes b: "download_begins denv args url it d"
      and r: "ydl_download denv url it (os_path_join d ''%(title)s.%(ext)s'') = Inl e \<or>
              (ydl_download denv url it (os_path_join d ''%(title)s.%(ext)s'') = Inr () \<and>
               (\<exists>p. find_downloaded (os_walk denv d) None = Some p \<and> p \<noteq> [] \<and>
                    path_exists denv p \<and> read_file denv p = Inl e))"
  shows "fst (prod_download denv w args) = download_error e"
  unfolding prod_download_def
  by (rule download_raise_500(1) [OF b])
     (use r in \<open>auto simp: prod_download_try_def Let_def\<close>)

lemma prod_download_missing:
  assumes b: "download_begins denv args url it d"
      and r: "ydl_download denv url it (os_path_join d ''%(title)s.%(ext)s'') = Inr ()"
             "find_downloaded (os_walk denv d) None = None \<or>
              (\<exists>p. find_downloaded (os_walk denv d) None = Some p \<and>
                   (p = [] \<or> \<not> path_exists denv p))"
  shows "fst (prod_download denv w args)
           = error_response 500 ''Download failed or file not found''"
  unfolding prod_download_def download_raise_500(2) [OF b]
  using r by (auto simp: prod_download_try_def Let_def)

lemma mkdtemp_raises:
  "arg_url args = Some url \<Longrightarrow> url \<noteq> [] \<Longrightarrow> arg_itag args = Some it \<Longrightarrow> it \<noteq> [] \<Longrightarrow>
   is_valid_youtube_url url \<Longrightarrow> mkdtemp denv = Inl e \<Longrightarrow>
   fst (download try_body denv w args) = download_error e"
  by (simp add: download_def Let_def)

lemma example_valid: "is_valid_youtube_url rick" by code_simp
lemma example_extract: "extract_video_id example_stdlib rick = Some ''dQw4w9WgXcQ''" by code_simp
lemma example_strip: "strip rick = rick" by code_simp
lemma example_invalid: "\<not> is_valid_youtube_url (strip ''  https://example.com/watch  '')" by code_simp
lemma example_int: "py_int example_stdlib ''18'' = Inr 18" by code_simp
lemma example_no_formats: "prod_formats (info_of [audio_only_webm]) = []" by code_simp

lemma example_reaches:
  "reaches_collaborator example_stdlib example_env empty_world [(''url'', JStr rick)] ''dQw4w9WgXcQ''"
  by (simp add: reaches_collaborator_def example_valid example_extract example_strip
      get_cached_info_def empty_world_def)
     (simp add: rick_def)

lemma example_begins:
  "download_begins quiet_download_env \<lparr> arg_url = Some rick, arg_itag = Some ''18'' \<rparr> rick ''18''
     ''/tmp/tmpk3x''"
  by (simp add: download_begins_def example_valid quiet_download_env_def) (simp add: rick_def)

text \<open>
  What the handlers answer, by class of failure, in both files. In \<open>/get_video_info\<close>:
  a body that is not JSON, a body that is false or has no \<open>url\<close>, an \<open>url\<close> string
  that is empty, fails the validation or yields no identifier of eleven characters are
  answered 400; when the collaborator raises \<open>e\<close> during the fetch of the metadata, the
  answer is 400 with the message "Error accessing YouTube: " followed by \<open>str(e)\<close>; no
  surviving format is answered 400. In \<open>/download\<close>: a missing argument and an URL that
  fails the validation are answered 400; an error raised by the collaborator, or any
  other exception of the body, is answered 500, and so is a file that is missing after
  the download. An exception that only the outermost handler of \<open>/get_video_info\<close>
  catches (a body that fails to parse, an \<open>url\<close> that is no string) is answered 500.
  When \<open>extract_info\<close> of \<open>production.py\<close> returns \<open>None\<close>, the answer is 400 with the
  text of the \<open>AttributeError\<close> that \<open>info.get\<close> raises.
\<close>

lemma status_by_failure_class:
  "status (fst (get_video_info resolve sl env w NotJson)) = 400 \<and>
   (\<not> truthy_json data \<or> url_in data = Inr False \<longrightarrow>
      status (fst (get_video_info resolve sl env w (Json data))) = 400) \<and>
   (map_of (rev kvs) ''url'' = Some (JStr u) \<and>
    (strip u = [] \<or> \<not> is_valid_youtube_url (strip u) \<or>
     extract_video_id sl (strip u) = None \<or>
     (\<exists>v. extract_video_id sl (strip u) = Some v \<and> length v \<noteq> 11)) \<longrightarrow>
      status (fst (get_video_info resolve sl env w (Json (JObj kvs)))) = 400) \<and>
   (arg_url args = None \<or> arg_url args = Some [] \<or> arg_itag args = None \<or>
    arg_itag args = Some [] \<or> (\<exists>x. arg_url args = Some x \<and> \<not> is_valid_youtube_url x) \<longrightarrow>
      status (fst (download try_body denv w args)) = 400) \<and>
   (reaches_collaborator sl env w kvs vid \<and>
    YouTube (''https://www.youtube.com/watch?v='' @ vid) = Inl e \<longrightarrow>
      fst (app_get_video_info YouTube sl env w (Json (JObj kvs)))
        = error_response 400 (''Error accessing YouTube: '' @ exn_str e)) \<and>
   (reaches_collaborator sl env w kvs vid \<and>
    extract_info (''https://www.youtube.com/watch?v='' @ vid) = Inl e \<longrightarrow>
      fst (prod_get_video_info extract_info sl env w (Json (JObj kvs)))
        = error_response 400 (''Error accessing YouTube: '' @ exn_str e)) \<and>
   (reaches_collaborator sl env w kvs vid \<and>
    YouTube (''https://www.youtube.com/watch?v='' @ vid) = Inr yt \<and> app_formats yt = [] \<longrightarrow>
      status (fst (app_get_video_info YouTube sl env w (Json (JObj kvs)))) = 400) \<and>
   (reaches_collaborator sl env w kvs vid \<and>
    extract_info (''https://www.youtube.com/watch?v='' @ vid) = Inr (Some info) \<and>
    prod_formats info = [] \<longrightarrow>
      status (fst (prod_get_video_info extract_info sl env w (Json (JObj kvs)))) = 400) \<and>
   (download_begins denv args url it d \<and>
    (yt_streams denv url = Inl e \<or>
     (\<exists>itags n. yt_streams denv url = Inr itags \<and> py_int sl it = Inr n \<and> n \<in> set itags \<and>
        stream_download denv n d = Inl e)) \<longrightarrow>
      fst (app_download sl denv w args) = download_error e) \<and>
   (download_begins denv args url it d \<and>
    yt_streams denv url = Inr itags \<and> py_int sl it = Inr n \<and> n \<in> set itags \<and>
    (stream_download denv n d = Inr None \<or>
     (\<exists>p. stream_download denv n d = Inr (Some p) \<and> (p = [] \<or> \<not> path_exists denv p))) \<longrightarrow>
      status (fst (app_download sl denv w args)) = 500) \<and>
   (download_begins denv args url it d \<and>
    ydl_download denv url it (os_path_join d ''%(title)s.%(ext)s'') = Inl e \<longrightarrow>
      fst (prod_download denv w args) = download_error e) \<and>
   (download_begins denv args url it d \<and>
    ydl_download denv url it (os_path_join d ''%(title)s.%(ext)s'') = Inr () \<and>
    (find_downloaded (os_walk denv d) None = None \<or>
     (\<exists>p. find_downloaded (os_walk denv d) None = Some p \<and>
          (p = [] \<or> \<not> path_exists denv p))) \<longrightarrow>
      status (fst (prod_download denv w args)) = 500) \<and>
   status (download_error e) = 500 \<and>
   fst (get_video_info resolve sl env w (BadJson e)) = unexpected e \<and>
   (map_of (rev kvs) ''url'' = Some j \<and> strip_of j = Inl e \<longrightarrow>
      fst (get_video_info resolve sl env w (Json (JObj kvs))) = unexpected e) \<and>
   (download_begins denv args url it d \<and>
    fst (try_body url it d
          ((called (Call_is_valid_youtube_url url) w)
             \<lparr> tmp_dirs := d # tmp_dirs (called (Call_is_valid_youtube_url url) w) \<rparr>)) = Inl e \<longrightarrow>
      fst (download try_body denv w args) = download_error e) \<and>
   status (unexpected e) = 500 \<and>
   (reaches_collaborator sl env w kvs vid \<and>
    extract_info (''https://www.youtube.com/watch?v='' @ vid) = Inr None \<longrightarrow>
      fst (prod_get_video_info extract_info sl env w (Json (JObj kvs)))
        = error_response 400
            ''Error accessing YouTube: NoneType object has no attribute get'')"
proof -
  have c1: "reaches_collaborator sl env w kvs vid \<and>
    YouTube (''https://www.youtube.com/watch?v='' @ vid) = Inl e \<longrightarrow>
      fst (app_get_video_info YouTube sl env w (Json (JObj kvs)))
        = error_response 400 (''Error accessing YouTube: '' @ exn_str e)"
  proof (intro impI, elim conjE)
    assume a: "reaches_collaborator sl env w kvs vid"
      "YouTube (''https://www.youtube.com/watch?v='' @ vid) = Inl e"
    then have "app_resolve YouTube (''https://www.youtube.com/watch?v='' @ vid) vid = Inl e"
      by (simp add: app_resolve_def)
    from collaborator_error [where resolve = "app_resolve YouTube", OF a(1) this] show
      "fst (app_get_video_info YouTube sl env w (Json (JObj kvs)))
        = error_response 400 (''Error accessing YouTube: '' @ exn_str e)"
      by (simp add: app_get_video_info_def)
  qed
  have c2: "reaches_collaborator sl env w kvs vid \<and>
    extract_info (''https://www.youtube.com/watch?v='' @ vid) = Inl e \<longrightarrow>
      fst (prod_get_video_info extract_info sl env w (Json (JObj kvs)))
        = error_response 400 (''Error accessing YouTube: '' @ exn_str e)"
  proof (intro impI, elim conjE)
    assume a: "reaches_collaborator sl env w kvs vid"
      "extract_info (''https://www.youtube.com/watch?v='' @ vid) = Inl e"
    then have "prod_resolve extract_info (''https://www.youtube.com/watch?v='' @ vid) vid = Inl e"
      by (simp add: prod_resolve_def)
    from collaborator_error [where resolve = "prod_resolve extract_info", OF a(1) this] show
      "fst (prod_get_video_info extract_info sl env w (Json (JObj kvs)))
        = error_response 400 (''Error accessing YouTube: '' @ exn_str e)"
      by (simp add: prod_get_video_info_def)
  qed
  have c3: "reaches_collaborator sl env w kvs vid \<and>
    extract_info (''https://www.youtube.com/watch?v='' @ vid) = Inr None \<longrightarrow>
      fst (prod_get_video_info extract_info sl env w (Json (JObj kvs)))
        = error_response 400
            ''Error accessing YouTube: NoneType object has no attribute get''"
  proof (intro impI, elim conjE)
    assume a: "reaches_collaborator sl env w kvs vid"
      "extract_info (''https://www.youtube.com/watch?v='' @ vid) = Inr None"
    then have "prod_resolve extract_info (''https://www.youtube.com/watch?v='' @ vid) vid
                 = Inl (Exn ''AttributeError'' ''NoneType object has no attribute get'')"
      by (simp add: prod_resolve_def)
    from collaborator_error [where resolve = "prod_resolve extract_info", OF a(1) this] show
      "fst (prod_get_video_info extract_info sl env w (Json (JObj kvs)))
        = error_response 400
            ''Error accessing YouTube: NoneType object has no attribute get''"
      by (simp add: prod_get_video_info_def)
  qed
  have z1: "reaches_collaborator sl env w kvs vid \<and>
    YouTube (''https://www.youtube.com/watch?v='' @ vid) = Inr yt \<and> app_formats yt = [] \<longrightarrow>
      status (fst (app_get_video_info YouTube sl env w (Json (JObj kvs)))) = 400"
  proof (intro impI, elim conjE)
    assume a: "reaches_collaborator sl env w kvs vid"
      "YouTube (''https://www.youtube.com/watch?v='' @ vid) = Inr yt" "app_formats yt = []"
    then have "app_resolve YouTube (''https://www.youtube.com/watch?v='' @ vid) vid
                 = Inr (yt_title yt, yt_thumbnail_url yt, [])"
      by (simp add: app_resolve_def)
    from no_formats [where resolve = "app_resolve YouTube", OF a(1) this] show
      "status (fst (app_get_video_info YouTube sl env w (Json (JObj kvs)))) = 400"
      by (simp add: app_get_video_info_def error_response_def)
  qed
  have z2: "reaches_collaborator sl env w kvs vid \<and>
    extract_info (''https://www.youtube.com/watch?v='' @ vid) = Inr (Some info) \<and>
    prod_formats info = [] \<longrightarrow>
      status (fst (prod_get_video_info extract_info sl env w (Json (JObj kvs)))) = 400"
  proof (intro impI, elim conjE)
    assume a: "reaches_collaborator sl env w kvs vid"
      "extract_info (''https://www.youtube.com/watch?v='' @ vid) = Inr (Some info)"
      "prod_formats info = []"
    then obtain t th where
      "prod_resolve extract_info (''https://www.youtube.com/watch?v='' @ vid) vid = Inr (t, th, [])"
      by (simp add: prod_resolve_def)
    from no_formats [where resolve = "prod_resolve extract_info", OF a(1) this] show
      "status (fst (prod_get_video_info extract_info sl env w (Json (JObj kvs)))) = 400"
      by (simp add: prod_get_video_info_def error_response_def)
  qed
  have d1: "download_begins denv args url it d \<and>
    (yt_streams denv url = Inl e \<or>
     (\<exists>itags n. yt_streams denv url = Inr itags \<and> py_int sl it = Inr n \<and> n \<in> set itags \<and>
        stream_download denv n d = Inl e)) \<longrightarrow>
      fst (app_download sl denv w args) = download_error e"
    by (blast intro: app_download_raises)
  have d2: "download_begins denv args url it d \<and>
    yt_streams denv url = Inr itags \<and> py_int sl it = Inr n \<and> n \<in> set itags \<and>
    (stream_download denv n d = Inr None \<or>
     (\<exists>p. stream_download denv n d = Inr (Some p) \<and> (p = [] \<or> \<not> path_exists denv p))) \<longrightarrow>
      status (fst (app_download sl denv w args)) = 500"
    by (auto simp: app_download_missing error_response_def)
  have d3: "download_begins denv args url it d \<and>
    ydl_download denv url it (os_path_join d ''%(title)s.%(ext)s'') = Inl e \<longrightarrow>
      fst (prod_download denv w args) = download_error e"
    by (blast intro: prod_download_raises)
  have d4: "download_begins denv args url it d \<and>
    ydl_download denv url it (os_path_join d ''%(title)s.%(ext)s'') = Inr () \<and>
    (find_downloaded (os_walk denv d) None = None \<or>
     (\<exists>p. find_downloaded (os_walk denv d) None = Some p \<and>
          (p = [] \<or> \<not> path_exists denv p))) \<longrightarrow>
      status (fst (prod_download denv w args)) = 500"
    by (auto simp: prod_download_missing error_response_def)
  have a4: "arg_url args = None \<or> arg_url args = Some [] \<or> arg_itag args = None \<or>
    arg_itag args = Some [] \<or> (\<exists>x. arg_url args = Some x \<and> \<not> is_valid_youtube_url x) \<longrightarrow>
      status (fst (download try_body denv w args)) = 400"
    using download_400 by blast
  have a3: "map_of (rev kvs) ''url'' = Some (JStr u) \<and>
    (strip u = [] \<or> \<not> is_valid_youtube_url (strip u) \<or>
     extract_video_id sl (strip u) = None \<or>
     (\<exists>v. extract_video_id sl (strip u) = Some v \<and> length v \<noteq> 11)) \<longrightarrow>
      status (fst (get_video_info resolve sl env w (Json (JObj kvs)))) = 400"
    using bad_request_400(3) by blast
  have a2: "\<not> truthy_json data \<or> url_in data = Inr False \<longrightarrow>
      status (fst (get_video_info resolve sl env w (Json data))) = 400"
    using bad_request_400(2) by blast
  have u3: "map_of (rev kvs) ''url'' = Some j \<and> strip_of j = Inl e \<longrightarrow>
      fst (get_video_info resolve sl env w (Json (JObj kvs))) = unexpected e"
    using uncaught_500(3) by blast
  have g: "download_begins denv args url it d \<and>
    fst (try_body url it d
          ((called (Call_is_valid_youtube_url url) w)
             \<lparr> tmp_dirs := d # tmp_dirs (called (Call_is_valid_youtube_url url) w) \<rparr>)) = Inl e \<longrightarrow>
      fst (download try_body denv w args) = download_error e"
    using download_raise_500(1) [where try_body = try_body and w = w and e = e] by blast
  show ?thesis
    by (intro conjI)
       (rule bad_request_400(1) a2 a3 a4 c1 c2 z1 z2 d1 d2 d3 d4 download_error_500
          uncaught_500(1) u3 g uncaught_500(4) c3)+
qed

lemma status_by_failure_class_examples:
  "status (fst (get_video_info (app_resolve failing_YouTube) example_stdlib example_env empty_world (Json (JObj [])))) = 400 \<and>
   \<not> is_valid_youtube_url (strip ''  https://example.com/watch  '') \<and> status (fst (get_video_info (app_resolve failing_YouTube) example_stdlib example_env empty_world (Json (JObj [(''url'', JStr ''  https://example.com/watch  '')])))) = 400 \<and>
   status (fst (download (app_download_try example_stdlib quiet_download_env) quiet_download_env empty_world \<lparr> arg_url = Some rick, arg_itag = None \<rparr>)) = 400 \<and>
   fst (app_get_video_info failing_YouTube example_stdlib example_env empty_world (Json (JObj [(''url'', JStr rick)]))) = error_response 400 ''Error accessing YouTube: This video is unavailable'' \<and>
   fst (prod_get_video_info (\<lambda>u. Inr None) example_stdlib example_env empty_world (Json (JObj [(''url'', JStr rick)]))) = error_response 400 ''Error accessing YouTube: NoneType object has no attribute get'' \<and>
   status (fst (app_get_video_info (\<lambda>u. Inr no_streams_yt) example_stdlib example_env empty_world (Json (JObj [(''url'', JStr rick)])))) = 400 \<and>
   status (fst (prod_get_video_info (\<lambda>u. Inr (Some (info_of [audio_only_webm]))) example_stdlib example_env empty_world (Json (JObj [(''url'', JStr rick)])))) = 400 \<and>
   fst (app_download example_stdlib (quiet_download_env \<lparr> yt_streams := \<lambda>u. Inl (Exn ''URLError'' ''timed out'') \<rparr>) empty_world \<lparr> arg_url = Some rick, arg_itag = Some ''18'' \<rparr>) = download_error (Exn ''URLError'' ''timed out'') \<and>
   status (fst (app_download example_stdlib quiet_download_env empty_world \<lparr> arg_url = Some rick, arg_itag = Some ''18'' \<rparr>)) = 500 \<and>
   fst (prod_download (quiet_download_env \<lparr> ydl_download := \<lambda>u f t. Inl (Exn ''DownloadError'' ''HTTP Error 403'') \<rparr>) empty_world \<lparr> arg_url = Some rick, arg_itag = Some ''18'' \<rparr>) = download_error (Exn ''DownloadError'' ''HTTP Error 403'') \<and>
   status (fst (prod_download quiet_download_env empty_world \<lparr> arg_url = Some rick, arg_itag = Some ''18'' \<rparr>)) = 500 \<and>
   fst (get_video_info (app_resolve failing_YouTube) example_stdlib example_env empty_world (Json (JObj [(''url'', JInt 3)]))) = unexpected (Exn ''AttributeError'' ''int object has no attribute strip'') \<and>
   fst (download (\<lambda>u i d w. (Inl (Exn ''OSError'' ''disk full''), w)) quiet_download_env empty_world \<lparr> arg_url = Some rick, arg_itag = Some ''18'' \<rparr>) = download_error (Exn ''OSError'' ''disk full'')"
proof -
  have w2: "status (fst (get_video_info (app_resolve failing_YouTube) example_stdlib example_env empty_world (Json (JObj [])))) = 400"
    using status_by_failure_class [where data = "JObj []", THEN conjunct2, THEN conjunct1] 
    by simp
  have w3: "\<not> is_valid_youtube_url (strip ''  https://example.com/watch  '') \<and> status (fst (get_video_info (app_resolve failing_YouTube) example_stdlib example_env empty_world (Json (JObj [(''url'', JStr ''  https://example.com/watch  '')])))) = 400"
    using status_by_failure_class [where kvs = "[(''url'', JStr ''  https://example.com/watch  '')]" and u = "''  https://example.com/watch  ''", THEN conjunct2, THEN conjunct2, THEN conjunct1] example_invalid
    by simp
  have w4: "status (fst (download (app_download_try example_stdlib quiet_download_env) quiet_download_env empty_world \<lparr> arg_url = Some rick, arg_itag = None \<rparr>)) = 400"
    using status_by_failure_class [where args = "\<lparr> arg_url = Some rick, arg_itag = None \<rparr>", THEN conjunct2, THEN conjunct2, THEN conjunct2, THEN conjunct1] 
    by simp
  have w5: "fst (app_get_video_info failing_YouTube example_stdlib example_env empty_world (Json (JObj [(''url'', JStr rick)]))) = error_response 400 ''Error accessing YouTube: This video is unavailable''"
    using status_by_failure_class [where sl = example_stdlib and env = example_env and w = empty_world and kvs = "[(''url'', JStr rick)]" and vid = "''dQw4w9WgXcQ''" and YouTube = failing_YouTube and e = "Exn ''VideoUnavailable'' ''This video is unavailable''", THEN conjunct2, THEN conjunct2, THEN conjunct2, THEN conjunct2, THEN conjunct1] example_reaches
    by (simp add: failing_YouTube_def)
  have w6: "fst (prod_get_video_info (\<lambda>u. Inr None) example_stdlib example_env empty_world (Json (JObj [(''url'', JStr rick)]))) = error_response 400 ''Error accessing YouTube: NoneType object has no attribute get''"
    using status_by_failure_class [where sl = example_stdlib and env = example_env and w = empty_world and kvs = "[(''url'', JStr rick)]" and vid = "''dQw4w9WgXcQ''" and extract_info = "\<lambda>u. Inr None", THEN conjunct2, THEN conjunct2, THEN conjunct2, THEN conjunct2, THEN conjunct2, THEN conjunct2, THEN conjunct2, THEN conjunct2, THEN conjunct2, THEN conjunct2, THEN conjunct2, THEN conjunct2, THEN conjunct2, THEN conjunct2, THEN conjunct2, THEN conjunct2, THEN conjunct2] example_reaches
    by simp
  have w7: "status (fst (app_get_video_info (\<lambda>u. Inr no_streams_yt) example_stdlib example_env empty_world (Json (JObj [(''url'', JStr rick)])))) = 400"
    using status_by_failure_class [where sl = example_stdlib and env = example_env and w = empty_world and kvs = "[(''url'', JStr rick)]" and vid = "''dQw4w9WgXcQ''" and YouTube = "\<lambda>u. Inr no_streams_yt" and yt = no_streams_yt, THEN conjunct2, THEN conjunct2, THEN conjunct2, THEN conjunct2, THEN conjunct2, THEN conjunct2, THEN conjunct1] example_reaches
    by (simp add: no_streams_yt_def app_formats_def app_audio_def)
  have w8: "status (fst (prod_get_video_info (\<lambda>u. Inr (Some (info_of [audio_only_webm]))) example_stdlib example_env empty_world (Json (JObj [(''url'', JStr rick)])))) = 400"
    using status_by_failure_class [where sl = example_stdlib and env = example_env and w = empty_world and kvs = "[(''url'', JStr rick)]" and vid = "''dQw4w9WgXcQ''" and extract_info = "\<lambda>u. Inr (Some (info_of [audio_only_webm]))" and info = "info_of [audio_only_webm]", THEN conjunct2, THEN conjunct2, THEN conjunct2, THEN conjunct2, THEN conjunct2, THEN conjunct2, THEN conjunct2, THEN conjunct1] example_reaches example_no_formats
    by simp
  have w9: "fst (app_download example_stdlib (quiet_download_env \<lparr> yt_streams := \<lambda>u. Inl (Exn ''URLError'' ''timed out'') \<rparr>) empty_world \<lparr> arg_url = Some rick, arg_itag = Some ''18'' \<rparr>) = download_error (Exn ''URLError'' ''timed out'')"
    using status_by_failure_class [where sl = example_stdlib and w = empty_world and args = "\<lparr> arg_url = Some rick, arg_itag = Some ''18'' \<rparr>" and url = rick and it = "''18''" and d = "''/tmp/tmpk3x''" and denv = "quiet_download_env \<lparr> yt_streams := \<lambda>u. Inl (Exn ''URLError'' ''timed out'') \<rparr>" and e = "Exn ''URLError'' ''timed out''", THEN conjunct2, THEN conjunct2, THEN conjunct2, THEN conjunct2, THEN conjunct2, THEN conjunct2, THEN conjunct2, THEN conjunct2, THEN conjunct1] example_begins
    by (simp add: download_begins_def quiet_download_env_def)
  have w10: "status (fst (app_download example_stdlib quiet_download_env empty_world \<lparr> arg_url = Some rick, arg_itag = Some ''18'' \<rparr>)) = 500"
    using status_by_failure_class [where sl = example_stdlib and w = empty_world and args = "\<lparr> arg_url = Some rick, arg_itag = Some ''18'' \<rparr>" and url = rick and it = "''18''" and d = "''/tmp/tmpk3x''" and denv = quiet_download_env and itags = "[18, 22]" and n = 18, THEN conjunct2, THEN conjunct2, THEN conjunct2, THEN conjunct2, THEN conjunct2, THEN conjunct2, THEN conjunct2, THEN conjunct2, THEN conjunct2, THEN conjunct1] example_begins example_int
    by (simp add: quiet_download_env_def)
  have w11: "fst (prod_download (quiet_download_env \<lparr> ydl_download := \<lambda>u f t. Inl (Exn ''DownloadError'' ''HTTP Error 403'') \<rparr>) empty_world \<lparr> arg_url = Some rick, arg_itag = Some ''18'' \<rparr>) = download_error (Exn ''DownloadError'' ''HTTP Error 403'')"
    using status_by_failure_class [where w = empty_world and args = "\<lparr> arg_url = Some rick, arg_itag = Some ''18'' \<rparr>" and url = rick and it = "''18''" and d = "''/tmp/tmpk3x''" and denv = "quiet_download_env \<lparr> ydl_download := \<lambda>u f t. Inl (Exn ''DownloadError'' ''HTTP Error 403'') \<rparr>" and e = "Exn ''DownloadError'' ''HTTP Error 403''", THEN conjunct2, THEN conjunct2, THEN conjunct2, THEN conjunct2, THEN conjunct2, THEN conjunct2, THEN conjunct2, THEN conjunct2, THEN conjunct2, THEN conjunct2, THEN conjunct1] example_begins
    by (simp add: download_begins_def quiet_download_env_def)
  have w12: "status (fst (prod_download quiet_download_env empty_world \<lparr> arg_url = Some rick, arg_itag = Some ''18'' \<rparr>)) = 500"
    using status_by_failure_class [where w = empty_world and args = "\<lparr> arg_url = Some rick, arg_itag = Some ''18'' \<rparr>" and url = rick and it = "''18''" and d = "''/tmp/tmpk3x''" and denv = quiet_download_env, THEN conjunct2, THEN conjunct2, THEN conjunct2, THEN conjunct2, THEN conjunct2, THEN conjunct2, THEN conjunct2, THEN conjunct2, THEN conjunct2, THEN conjunct2, THEN conjunct2, THEN conjunct1] example_begins
    by (simp add: quiet_download_env_def)
  have w15: "fst (get_video_info (app_resolve failing_YouTube) example_stdlib example_env empty_world (Json (JObj [(''url'', JInt 3)]))) = unexpected (Exn ''AttributeError'' ''int object has no attribute strip'')"
    using status_by_failure_class [where kvs = "[(''url'', JInt 3)]" and j = "JInt 3" and e = "Exn ''AttributeError'' ''int object has no attribute strip''", THEN conjunct2, THEN conjunct2, THEN conjunct2, THEN conjunct2, THEN conjunct2, THEN conjunct2, THEN conjunct2, THEN conjunct2, THEN conjunct2, THEN conjunct2, THEN conjunct2, THEN conjunct2, THEN conjunct2, THEN conjunct2, THEN conjunct1] 
    by simp
  have w16: "fst (download (\<lambda>u i d w. (Inl (Exn ''OSError'' ''disk full''), w)) quiet_download_env empty_world \<lparr> arg_url = Some rick, arg_itag = Some ''18'' \<rparr>) = download_error (Exn ''OSError'' ''disk full'')"
    using status_by_failure_class [where try_body = "\<lambda>u i d w. (Inl (Exn ''OSError'' ''disk full''), w)" and w = empty_world and args = "\<lparr> arg_url = Some rick, arg_itag = Some ''18'' \<rparr>" and url = rick and it = "''18''" and d = "''/tmp/tmpk3x''" and denv = quiet_download_env and e = "Exn ''OSError'' ''disk full''", THEN conjunct2, THEN conjunct2, THEN conjunct2, THEN conjunct2, THEN conjunct2, THEN conjunct2, THEN conjunct2, THEN conjunct2, THEN conjunct2, THEN conjunct2, THEN conjunct2, THEN conjunct2, THEN conjunct2, THEN conjunct2, THEN conjunct2, THEN conjunct1] example_begins
    by simp
  from w2 w3 w4 w5 w6 w7 w8 w9 w10 w11 w12 w15 w16 show ?thesis by blast
qed

text \<open>
  Claim C5, on both files and on \<open>production.py\<close>. A request to \<open>/get_video_info\<close>
  whose \<open>url\<close> is \<open>null\<close> or the number 5, or whose body is \<open>true\<close>, the number 5,
  the list \<open>["url"]\<close> or the string \<open>"my url"\<close>, carries a missing or malformed URL;
  each makes the handler raise, and the outermost \<open>except\<close> answers 500, not 400. In
  \<open>production.py\<close> the request for a valid URL reaches the collaborator, yt-dlp meets an
  error and, under \<open>ignoreerrors\<close>, returns \<open>None\<close>: the answer is 400, and its message
  is the text of the \<open>AttributeError\<close> of \<open>info.get\<close>, not the message of the
  collaborator.
\<close>

theorem malformed_url_answers_500:
  "fst (get_video_info resolve sl env w (Json (JObj [(''url'', JNull)])))
     = unexpected (Exn ''AttributeError'' ''NoneType object has no attribute strip'') \<and>
   status (fst (get_video_info resolve sl env w (Json (JObj [(''url'', JNull)])))) = 500 \<and>
   status (fst (get_video_info resolve sl env w (Json (JObj [(''url'', JInt 5)])))) = 500 \<and>
   status (fst (get_video_info resolve sl env w (Json (JBool True)))) = 500 \<and>
   status (fst (get_video_info resolve sl env w (Json (JInt 5)))) = 500 \<and>
   status (fst (get_video_info resolve sl env w (Json (JArr [JStr ''url''])))) = 500 \<and>
   status (fst (get_video_info resolve sl env w (Json (JStr ''my url'')))) = 500 \<and>
   reaches_collaborator example_stdlib example_env empty_world [(''url'', JStr rick)]
     ''dQw4w9WgXcQ'' \<and>
   fst (prod_get_video_info (\<lambda>u. Inr None) example_stdlib example_env empty_world
          (Json (JObj [(''url'', JStr rick)])))
     = error_response 400 ''Error accessing YouTube: NoneType object has no attribute get''"
proof -
  have "fst (prod_get_video_info (\<lambda>u. Inr None) example_stdlib example_env empty_world
          (Json (JObj [(''url'', JStr rick)])))
     = error_response 400 ''Error accessing YouTube: NoneType object has no attribute get''"
  proof -
    have "prod_resolve (\<lambda>u. Inr None) (''https://www.youtube.com/watch?v='' @ ''dQw4w9WgXcQ'')
            ''dQw4w9WgXcQ''
          = Inl (Exn ''AttributeError'' ''NoneType object has no attribute get'')"
      by (simp add: prod_resolve_def)
    from collaborator_error [where resolve = "prod_resolve (\<lambda>u. Inr None)",
        OF example_reaches this]
    show ?thesis by (simp add: prod_get_video_info_def)
  qed
  moreover have
   "fst (get_video_info resolve sl env w (Json (JObj [(''url'', JNull)])))
     = unexpected (Exn ''AttributeError'' ''NoneType object has no attribute strip'') \<and>
    status (fst (get_video_info resolve sl env w (Json (JObj [(''url'', JNull)])))) = 500 \<and>
    status (fst (get_video_info resolve sl env w (Json (JObj [(''url'', JInt 5)])))) = 500 \<and>
    status (fst (get_video_info resolve sl env w (Json (JBool True)))) = 500 \<and>
    status (fst (get_video_info resolve sl env w (Json (JInt 5)))) = 500 \<and>
    status (fst (get_video_info resolve sl env w (Json (JArr [JStr ''url''])))) = 500 \<and>
    status (fst (get_video_info resolve sl env w (Json (JStr ''my url'')))) = 500"
    by (simp add: get_video_info_def unexpected_def error_response_def)
  ultimately show ?thesis using example_reaches by blast
qed

subsection \<open>The format identifier of a download, as a number\<close>

text \<open>\<open>int\<close> skips the blanks around the digits, the no-break space among them, and
  takes U+001C for no blank: the literal is invalid, \<open>int\<close> raises, and the handler
  answers 500 after it has removed the directory.\<close>

lemma py_int_blanks:
  "py_int sl '' 18 '' = Inr 18"
  "py_int sl (CHR 0xA0 # ''18'') = Inr 18"
  "py_int sl (CHR 0x1C # ''18'')
     = Inl (Exn ''ValueError''
              (''invalid literal for int() with base 10: '' @ repr_str sl (CHR 0x1C # ''18'')))"
  by code_simp+

subsection \<open>The temporary directory of a download\<close>

text \<open>
  Once the directory \<open>d\<close> is created, the handler removes it when the body raises and
  when the file has been read; it leaves it on disk when the body returns early:
  \<open>app.py\<close> on a stream that is not found and on a missing file, \<open>production.py\<close> on a
  missing file.
\<close>

lemma download_world:
  assumes "download_begins denv args url it d"
  shows "snd (download try_body denv w args)
          = (case try_body url it d
               ((called (Call_is_valid_youtube_url url) w)
                  \<lparr> tmp_dirs := d # tmp_dirs (called (Call_is_valid_youtube_url url) w) \<rparr>) of
               (Inl e, w3) \<Rightarrow> rmtree d w3 | (Inr r, w3) \<Rightarrow> w3)"
  using assms
  by (auto simp: download_begins_def download_def Let_def split: prod.splits sum.splits)

lemma app_download_cleans_up:
  assumes b: "download_begins denv args url it d"
      and r: "yt_streams denv url = Inl e \<or>
              (\<exists>itags. yt_streams denv url = Inr itags \<and>
                 (py_int sl it = Inl e \<or>
                  (\<exists>n. py_int sl it = Inr n \<and> n \<in> set itags \<and>
                     (stream_download denv n d = Inl e \<or>
                      (\<exists>p. stream_download denv n d = Inr (Some p) \<and> p \<noteq> [] \<and>
                           path_exists denv p)))))"
  shows "tmp_dirs (snd (app_download sl denv w args)) = removeAll d (tmp_dirs w)"
  unfolding app_download_def download_world [OF b]
  using r
  by (auto simp: app_download_try_def Let_def rmtree_def called_def split: sum.splits)

lemma app_download_leaves_directory:
  assumes b: "download_begins denv args url it d"
      and r: "yt_streams denv url = Inr itags" "py_int sl it = Inr n"
             "n \<notin> set itags \<or> stream_download denv n d = Inr None \<or>
              (\<exists>p. stream_download denv n d = Inr (Some p) \<and> (p = [] \<or> \<not> path_exists denv p))"
  shows "tmp_dirs (snd (app_download sl denv w args)) = d # tmp_dirs w"
  unfolding app_download_def download_world [OF b]
  using r
  by (auto simp: app_download_try_def Let_def rmtree_def called_def)

lemma prod_download_cleans_up:
  assumes b: "download_begins denv args url it d"
      and r: "ydl_download denv url it (os_path_join d ''%(title)s.%(ext)s'') = Inl e \<or>
              (\<exists>p. find_downloaded (os_walk denv d) None = Some p \<and> p \<noteq> [] \<and>
                   path_exists denv p)"
  shows "tmp_dirs (snd (prod_download denv w args)) = removeAll d (tmp_dirs w)"
  unfolding prod_download_def download_world [OF b]
  using r
  by (auto simp: prod_download_try_def Let_def rmtree_def called_def split: sum.splits)

lemma prod_download_leaves_directory:
  assumes b: "download_begins denv args url it d"
      and r: "ydl_download denv url it (os_path_join d ''%(title)s.%(ext)s'') = Inr ()"
             "find_downloaded (os_walk denv d) None = None \<or>
              (\<exists>p. find_downloaded (os_walk denv d) None = Some p \<and>
                   (p = [] \<or> \<not> path_exists denv p))"
  shows "tmp_dirs (snd (prod_download denv w args)) = d # tmp_dirs w"
  unfolding prod_download_def download_world [OF b]
  using r
  by (auto simp: prod_download_try_def Let_def rmtree_def called_def)

text \<open>
  Claim C1, on both files. The directory \<open>/tmp/tmpk3x\<close> is created. In \<open>app.py\<close> the
  itag 137 is not among the streams: the answer is 400 and the directory is still
  there; with the itag 18 the download leaves no file: the answer is 500 and the
  directory is still there. In \<open>production.py\<close> the download leaves no file: 500, and
  the directory is still there. When the collaborator raises instead, the directory
  is removed.
\<close>

theorem download_early_return_leaks:
  "status (fst (app_download example_stdlib quiet_download_env empty_world
                  \<lparr> arg_url = Some rick, arg_itag = Some ''137'' \<rparr>)) = 400 \<and>
   tmp_dirs (snd (app_download example_stdlib quiet_download_env empty_world
                    \<lparr> arg_url = Some rick, arg_itag = Some ''137'' \<rparr>)) = [''/tmp/tmpk3x''] \<and>
   status (fst (app_download example_stdlib quiet_download_env empty_world
                  \<lparr> arg_url = Some rick, arg_itag = Some ''18'' \<rparr>)) = 500 \<and>
   tmp_dirs (snd (app_download example_stdlib quiet_download_env empty_world
                    \<lparr> arg_url = Some rick, arg_itag = Some ''18'' \<rparr>)) = [''/tmp/tmpk3x''] \<and>
   status (fst (prod_download quiet_download_env empty_world
                  \<lparr> arg_url = Some rick, arg_itag = Some ''18'' \<rparr>)) = 500 \<and>
   tmp_dirs (snd (prod_download quiet_download_env empty_world
                    \<lparr> arg_url = Some rick, arg_itag = Some ''18'' \<rparr>)) = [''/tmp/tmpk3x''] \<and>
   tmp_dirs (snd (prod_download
                    (quiet_download_env \<lparr> ydl_download :=
                        \<lambda>u f t. Inl (Exn ''DownloadError'' ''HTTP Error 403'') \<rparr>)
                    empty_world \<lparr> arg_url = Some rick, arg_itag = Some ''18'' \<rparr>)) = []"
  by code_simp

section \<open>Properties of the extraction\<close>

subsection \<open>The four plain shapes\<close>

text \<open>The characters of an identifier are none of the separators that the
  extraction and \<open>urlparse\<close> look for.\<close>

lemma split_absent: "d \<notin> set s \<Longrightarrow> split d s = [s]"
  by (induction s) auto

lemma split1_absent: "d \<notin> set s \<Longrightarrow> split1 d s = None"
  by (induction s) auto

lemma startswith_set: "startswith s sub \<Longrightarrow> set sub \<subseteq> set s"
  by (induction s sub rule: startswith.induct) auto

lemma contains_set: "contains s sub \<Longrightarrow> set sub \<subseteq> set s"
proof (induction s)
  case Nil
  then show ?case by simp
next
  case (Cons a s)
  from Cons.prems have "startswith (a # s) sub \<or> contains s sub" by simp
  then show ?case
  proof
    assume "startswith (a # s) sub"
    then show ?thesis by (rule startswith_set)
  next
    assume "contains s sub"
    with Cons.IH show ?thesis by auto
  qed
qed

lemma not_id_char:
  "\<not> id_char CHR ''.''" "\<not> id_char CHR ''/''" "\<not> id_char CHR ''?''"
  "\<not> id_char CHR ''#''" "\<not> id_char CHR ''&''" "\<not> id_char CHR ''=''"
  "\<not> id_char CHR '';''" "\<not> id_char CHR ''+''" "\<not> id_char CHR ''%''"
  "\<not> id_char CHR 0x09" "\<not> id_char CHR 0x0A" "\<not> id_char CHR 0x0D"
  by (simp_all add: id_char_def ascii_digit_def ascii_alpha_def ascii_upper_def
      ascii_lower_def)

lemma id_char_not:
  assumes "list_all id_char vid"
  shows "CHR ''.'' \<notin> set vid" "CHR ''/'' \<notin> set vid" "CHR ''?'' \<notin> set vid"
    "CHR ''#'' \<notin> set vid" "CHR ''&'' \<notin> set vid" "CHR ''='' \<notin> set vid"
    "CHR '';'' \<notin> set vid" "CHR ''+'' \<notin> set vid" "CHR ''%'' \<notin> set vid"
    "CHR 0x09 \<notin> set vid" "CHR 0x0A \<notin> set vid" "CHR 0x0D \<notin> set vid"
proof -
  have "c \<notin> set vid" if "\<not> id_char c" for c
    using that assms by (auto simp only: list_all_iff)
  from this not_id_char show "CHR ''.'' \<notin> set vid" "CHR ''/'' \<notin> set vid"
    "CHR ''?'' \<notin> set vid" "CHR ''#'' \<notin> set vid" "CHR ''&'' \<notin> set vid"
    "CHR ''='' \<notin> set vid" "CHR '';'' \<notin> set vid" "CHR ''+'' \<notin> set vid"
    "CHR ''%'' \<notin> set vid" "CHR 0x09 \<notin> set vid" "CHR 0x0A \<notin> set vid"
    "CHR 0x0D \<notin> set vid"
    by blast+
qed

lemma id_no_youtu_be: "list_all id_char vid \<Longrightarrow> \<not> contains vid ''youtu.be''"
  using contains_set [of vid "''youtu.be''"] id_char_not(1) [of vid] by auto

lemma id_filter:
  "list_all id_char vid \<Longrightarrow>
   filter (\<lambda>c. c \<noteq> CHR 0x09 \<and> c \<noteq> CHR 0x0D \<and> c \<noteq> CHR 0x0A) vid = vid"
  using id_char_not(10,11,12) [of vid] by (auto simp: filter_id_conv)

lemma id_unquote: "list_all id_char vid \<Longrightarrow> unquote_plus sl vid = vid"
proof -
  assume a: "list_all id_char vid"
  have "map (\<lambda>c. if c = CHR ''+'' then CHR '' '' else c) vid = vid"
    using id_char_not(8) [OF a] by (intro map_idI) auto
  with id_char_not(9) [OF a] show ?thesis by (simp add: unquote_plus_def)
qed
text \<open>\<open>urlparse\<close> of an \<open>https\<close> URL with a host and a path that ends in an
  identifier.\<close>

lemma urlparse_https:
  assumes a: "list_all id_char vid"
      and nl: "netloc_delim c" "list_all (\<lambda>x. \<not> netloc_delim x \<and> x \<noteq> CHR ''['' \<and> x \<noteq> CHR '']'') host"
      and r: "list_all (\<lambda>x. x \<noteq> CHR 0x09 \<and> x \<noteq> CHR 0x0D \<and> x \<noteq> CHR 0x0A) (host @ c # rest)"
  shows "urlparse sl (''https://'' @ host @ c # rest @ vid)
           = (let url4 = c # rest @ vid;
                  (url5, frag) = (case split1 CHR ''#'' url4 of None \<Rightarrow> (url4, []) | Some ab \<Rightarrow> ab);
                  (url6, qry) = (case split1 CHR ''?'' url5 of None \<Rightarrow> (url5, []) | Some ab \<Rightarrow> ab);
                  (url7, par) = (if CHR '';'' \<in> set url6 then splitparams url6 else (url6, []))
              in Inr \<lparr> scheme = ''https'', netloc = host, path = url7, params = par,
                       query = qry, fragment = frag \<rparr>)"
proof -
  have u1: "dropWhile c0_or_space (''https://'' @ host @ c # rest @ vid)
              = ''https://'' @ host @ c # rest @ vid"
    by (simp add: c0_or_space_def)
  have u2: "filter (\<lambda>c. c \<noteq> CHR 0x09 \<and> c \<noteq> CHR 0x0D \<and> c \<noteq> CHR 0x0A)
              (''https://'' @ host @ c # rest @ vid)
              = ''https://'' @ host @ c # rest @ vid"
    using r id_filter [OF a] by (simp add: filter_id_conv list_all_iff)
  have u3: "split_scheme (''https://'' @ host @ c # rest @ vid)
              = (''https'', ''//'' @ host @ c # rest @ vid)"
    by (simp add: split_scheme_def scheme_char_def ascii_alpha_def ascii_lower_def
        ascii_upper_def ascii_tolower_def)
  have t: "takeWhile (\<lambda>c. \<not> netloc_delim c) (host @ c # rest @ vid) = host"
          "dropWhile (\<lambda>c. \<not> netloc_delim c) (host @ c # rest @ vid) = c # rest @ vid"
    using nl by (simp_all add: takeWhile_append2 dropWhile_append2 list_all_iff)
  have b: "CHR ''['' \<notin> set host" "CHR '']'' \<notin> set host"
    using nl(2) by (auto simp: list_all_iff)
  have up: "''https'' \<in> set uses_params" by (simp add: uses_params_def)
  show ?thesis
    unfolding urlparse_def u1 Let_def u2 u3
    using t b up by simp
qed

lemma id_parse_qs:
  assumes a: "list_all id_char vid" and ne: "vid \<noteq> []"
  shows "parse_qs sl (''v='' @ vid) ''v'' = Some [vid]"
proof -
  note n = id_char_not [OF a]
  have s: "split CHR ''&'' (''v='' @ vid) = [''v='' @ vid]"
    using n by (simp add: split_absent)
  have u: "unquote_plus sl ''v'' = ''v''" by (simp add: unquote_plus_def)
  show ?thesis
    using ne by (simp add: parse_qs_def parse_qsl_def s [simplified] u id_unquote [OF a])
qed

lemma watch_shape:
  assumes "video_id_ok vid"
  shows "extract_video_id sl (''https://www.youtube.com/watch?v='' @ vid) = Some vid"
proof -
  from assms have a: "list_all id_char vid" and l: "length vid = 11"
    by (simp_all add: video_id_ok_def)
  from l have ne: "vid \<noteq> []" by auto
  note n = id_char_not [OF a]
  have c: "\<not> contains (''https://www.youtube.com/watch?v='' @ vid) ''youtu.be''"
    using id_no_youtu_be [OF a] by simp
  have p: "urlparse sl (''https://'' @ ''www.youtube.com'' @ CHR ''/'' # ''watch?v='' @ vid)
             = Inr \<lparr> scheme = ''https'', netloc = ''www.youtube.com'', path = ''/watch'',
                     params = [], query = ''v='' @ vid, fragment = [] \<rparr>"
    using n
    by (subst urlparse_https [OF a]) (simp_all add: netloc_delim_def split1_absent)
  have y: "contains ''www.youtube.com'' ''youtube.com''" by simp
  show ?thesis
    using c p [simplified] y id_parse_qs [OF a ne, of sl]
    by (simp add: extract_video_id_def)
qed

lemma short_shape:
  assumes "video_id_ok vid"
  shows "extract_video_id sl (''https://youtu.be/'' @ vid) = Some vid"
proof -
  from assms have a: "list_all id_char vid" by (simp add: video_id_ok_def)
  note n = id_char_not [OF a]
  have c: "contains (''https://youtu.be/'' @ vid) ''youtu.be''" by simp
  have s: "last (split CHR ''/'' (''https://youtu.be/'' @ vid)) = vid"
    using n by (simp add: split_absent)
  have h: "hd (split CHR ''?'' vid) = vid"
    using n by (simp add: split_absent)
  show ?thesis
    unfolding extract_video_id_def using c s h by simp
qed

lemma embed_shape:
  assumes "video_id_ok vid"
  shows "extract_video_id sl (''https://www.youtube.com/embed/'' @ vid) = Some vid"
proof -
  from assms have a: "list_all id_char vid" by (simp add: video_id_ok_def)
  note n = id_char_not [OF a]
  have c: "\<not> contains (''https://www.youtube.com/embed/'' @ vid) ''youtu.be''"
    using id_no_youtu_be [OF a] by simp
  have p: "urlparse sl (''https://'' @ ''www.youtube.com'' @ CHR ''/'' # ''embed/'' @ vid)
             = Inr \<lparr> scheme = ''https'', netloc = ''www.youtube.com'',
                     path = ''/embed/'' @ vid, params = [], query = [], fragment = [] \<rparr>"
    using n
    by (subst urlparse_https [OF a]) (simp_all add: netloc_delim_def split1_absent)
  have y: "contains ''www.youtube.com'' ''youtube.com''" by simp
  have q: "parse_qs sl [] ''v'' = None" by (simp add: parse_qs_def parse_qsl_def)
  have e: "contains (''/embed/'' @ vid) ''embed''" by simp
  have s: "last (split CHR ''/'' (''/embed/'' @ vid)) = vid"
    using n by (simp add: split_absent)
  show ?thesis
    using c p [simplified] y q e [simplified] s [simplified]
    by (simp add: extract_video_id_def)
qed

lemma shorts_shape:
  assumes "video_id_ok vid"
  shows "extract_video_id sl (''https://www.youtube.com/shorts/'' @ vid) = Some vid"
proof -
  from assms have a: "list_all id_char vid" and l: "length vid = 11"
    by (simp_all add: video_id_ok_def)
  from l have ne: "vid \<noteq> []" by auto
  note n = id_char_not [OF a]
  have c: "\<not> contains (''https://www.youtube.com/shorts/'' @ vid) ''youtu.be''"
    using id_no_youtu_be [OF a] by simp
  have p: "urlparse sl (''https://'' @ ''www.youtube.com'' @ CHR ''/'' # ''shorts/'' @ vid)
             = Inr \<lparr> scheme = ''https'', netloc = ''www.youtube.com'',
                     path = ''/shorts/'' @ vid, params = [], query = [], fragment = [] \<rparr>"
    using n
    by (subst urlparse_https [OF a]) (simp_all add: netloc_delim_def split1_absent)
  have q: "parse_qs sl [] ''v'' = None" by (simp add: parse_qs_def parse_qsl_def)
  have s: "split CHR ''/'' (''/shorts/'' @ vid) = [[], ''shorts'', vid]"
    using n by (simp add: split_absent)
  show ?thesis
    using c p [simplified] q s [simplified] l ne
    by (simp add: extract_video_id_def)
qed

text \<open>For every identifier, the plain watch, short, embed and shorts URLs of the
  video all yield it.\<close>

lemma plain_shapes_agree:
  assumes "video_id_ok vid"
  shows "extract_video_id sl (''https://www.youtube.com/watch?v='' @ vid) = Some vid"
    and "extract_video_id sl (''https://youtu.be/'' @ vid) = Some vid"
    and "extract_video_id sl (''https://www.youtube.com/embed/'' @ vid) = Some vid"
    and "extract_video_id sl (''https://www.youtube.com/shorts/'' @ vid) = Some vid"
  using assms by (rule watch_shape short_shape embed_shape shorts_shape)+

subsection \<open>A watch URL that mentions the short domain\<close>

text \<open>
  Claim C3, on a watch URL with one more query parameter, as YouTube itself writes
  them: the URL passes the validation, and \<open>extract_video_id\<close> returns \<open>watch\<close>,
  because the text \<open>youtu.be\<close> occurs in it. The plain watch URL and the short URL of
  the same video give the identifier. The handler answers the first URL with 400.
\<close>

theorem extract_video_id_feature_youtu_be:
  "is_valid_youtube_url ''https://www.youtube.com/watch?v=dQw4w9WgXcQ&feature=youtu.be'' \<and>
   extract_video_id sl ''https://www.youtube.com/watch?v=dQw4w9WgXcQ&feature=youtu.be''
     = Some ''watch'' \<and>
   extract_video_id sl ''https://www.youtube.com/watch?v=dQw4w9WgXcQ'' = Some ''dQw4w9WgXcQ'' \<and>
   extract_video_id sl ''https://youtu.be/dQw4w9WgXcQ'' = Some ''dQw4w9WgXcQ'' \<and>
   fst (get_video_info resolve sl env w
          (Json (JObj [(''url'',
             JStr ''https://www.youtube.com/watch?v=dQw4w9WgXcQ&feature=youtu.be'')])))
     = error_response 400 ''Could not extract video ID from URL''"
  by code_simp

end
